theory Spec2Isabelle
  imports Complex_Main "HOL-Library.Log_Nat"
begin

text \<open>
  A shallow embedding of \<open>src/providers/token.ts\<close>, the token provider: the two-tier
  cache, the fetcher with retries, the fetches of security, trade and DexScreener data,
  the paginated holder list, the analytics derived from them and the formatted report.
  Functions keep their names. A method that reads or writes the cache, the clock or the
  network takes the state and returns it; a method that can throw returns a sum, with
  the error on the left.
\<close>

section \<open>Numbers\<close>

text \<open>
  The provider computes with two kinds of numbers: JavaScript numbers, which are IEEE 754
  doubles, and the decimals of the library bignumber.js. Both are modelled over the
  rationals, each with the rounding it does.
\<close>

subsection \<open>JavaScript numbers\<close>

text \<open>
  A finite double is the rational it denotes. \<open>nearest_double x\<close> is the double
  nearest to \<open>x\<close>, a tie going to the even significand. A double has 53 bits of
  significand: for \<open>2^e \<le> |x| < 2^(e+1)\<close> its last place is \<open>2^(e-52)\<close>, and not
  less than \<open>2^-1074\<close>, the last place of the subnormal numbers. \<open>log2_floor x\<close> is
  that \<open>e\<close> for a positive \<open>x\<close>.
\<close>

definition pow2 :: "int \<Rightarrow> rat" where
  "pow2 k = (if 0 \<le> k then 2 ^ nat k else 1 / 2 ^ nat (- k))"

definition log2_floor :: "rat \<Rightarrow> int" where
  "log2_floor x =
     (case quotient_of x of
        (p, q) \<Rightarrow>
          let k = bitlen p - bitlen q
          in if pow2 k \<le> x then k else k - 1)"

definition round_half_even :: "rat \<Rightarrow> int" where
  "round_half_even y =
     (let f = \<lfloor>y\<rfloor>; r = y - of_int f
      in if r < 1 / 2 then f else if 1 / 2 < r then f + 1 else if even f then f else f + 1)"

definition nearest_double :: "rat \<Rightarrow> rat" where
  "nearest_double x =
     (if x = 0 then 0
      else let u = max (log2_floor \<bar>x\<bar> - 52) (- 1074)
           in sgn x * of_int (round_half_even (\<bar>x\<bar> / pow2 u)) * pow2 u)"

text \<open>
  The exponent of \<open>nearest_double\<close> is not bounded above. The largest double is
  \<open>max_double\<close>; a result that rounds beyond it is an infinity in JavaScript.
  A \<open>number\<close> is a value of JavaScript arithmetic: a finite double, an infinity or
  \<open>NaN\<close>. The sign of zero is not kept: no comparison of the provider shows it.
\<close>

definition max_double :: rat where
  "max_double = 2 ^ 1024 - 2 ^ 971"

definition in_range :: "rat \<Rightarrow> bool" where
  "in_range x = (\<bar>x\<bar> \<le> max_double)"

datatype number = Finite rat | PosInfinity | NegInfinity | NotANumber

definition to_number :: "rat \<Rightarrow> number" where
  "to_number x =
     (let d = nearest_double x
      in if max_double < d then PosInfinity else if d < - max_double then NegInfinity else Finite d)"

fun number_plus :: "number \<Rightarrow> number \<Rightarrow> number" where
  "number_plus NotANumber _ = NotANumber"
| "number_plus _ NotANumber = NotANumber"
| "number_plus (Finite a) (Finite b) = to_number (a + b)"
| "number_plus PosInfinity NegInfinity = NotANumber"
| "number_plus NegInfinity PosInfinity = NotANumber"
| "number_plus PosInfinity _ = PosInfinity"
| "number_plus NegInfinity _ = NegInfinity"
| "number_plus (Finite a) b = b"

fun number_divide :: "number \<Rightarrow> number \<Rightarrow> number" where
  "number_divide NotANumber _ = NotANumber"
| "number_divide _ NotANumber = NotANumber"
| "number_divide (Finite a) (Finite b) =
     (if b = 0 then (if a = 0 then NotANumber else if a < 0 then NegInfinity else PosInfinity)
      else to_number (a / b))"
| "number_divide (Finite a) _ = Finite 0"
| "number_divide PosInfinity (Finite b) = (if b < 0 then NegInfinity else PosInfinity)"
| "number_divide NegInfinity (Finite b) = (if b < 0 then PosInfinity else NegInfinity)"
| "number_divide _ _ = NotANumber"

fun number_less :: "number \<Rightarrow> number \<Rightarrow> bool" where
  "number_less NotANumber _ = False"
| "number_less _ NotANumber = False"
| "number_less (Finite a) (Finite b) = (a < b)"
| "number_less PosInfinity _ = False"
| "number_less _ PosInfinity = True"
| "number_less NegInfinity NegInfinity = False"
| "number_less NegInfinity _ = True"
| "number_less (Finite a) NegInfinity = False"

text \<open>
  \<open>Number_toString d\<close> is the decimal that \<open>toString\<close> prints for a finite double: of
  the decimals that read back as \<open>d\<close>, one with the fewest significant digits, and of
  those the nearest to \<open>d\<close>. Seventeen digits are enough for every double.
  \<open>decimal_near d k\<close> are the two neighbours of a positive \<open>d\<close> among the decimals
  of \<open>k\<close> significant digits.
\<close>

definition pow10 :: "int \<Rightarrow> rat" where
  "pow10 k = (if 0 \<le> k then 10 ^ nat k else 1 / 10 ^ nat (- k))"

function digits10 :: "int \<Rightarrow> int" where
  "digits10 n = (if 0 < n then digits10 (n div 10) + 1 else 0)"
  by pat_completeness auto
termination
  by (relation "measure nat") auto

declare digits10.simps [simp del]

definition log10_floor :: "rat \<Rightarrow> int" where
  "log10_floor x =
     (case quotient_of x of
        (p, q) \<Rightarrow>
          let k = digits10 p - digits10 q
          in if pow10 k \<le> x then k else k - 1)"

definition decimal_near :: "rat \<Rightarrow> nat \<Rightarrow> rat \<times> rat" where
  "decimal_near d k =
     (let step = pow10 (log10_floor d - int k + 1);
          lo = of_int \<lfloor>d / step\<rfloor> * step
      in (lo, lo + step))"

fun shortest_decimal :: "nat \<Rightarrow> nat \<Rightarrow> rat \<Rightarrow> rat" where
  "shortest_decimal 0 k d = d"
| "shortest_decimal (Suc n) k d =
     (case decimal_near d k of
        (lo, hi) \<Rightarrow>
          if nearest_double lo = d \<and> nearest_double hi = d
          then (if d - lo < hi - d then lo
                else if hi - d < d - lo then hi
                else if even \<lfloor>d / pow10 (log10_floor d - int k + 1)\<rfloor> then lo else hi)
          else if nearest_double lo = d then lo
          else if nearest_double hi = d then hi
          else shortest_decimal n (Suc k) d)"

definition Number_toString :: "rat \<Rightarrow> rat" where
  "Number_toString d = (if d = 0 then 0 else sgn d * shortest_decimal 17 1 \<bar>d\<bar>)"

subsection \<open>The decimals of bignumber.js\<close>

text \<open>
  A value of the library (\<open>new BigNumber(..)\<close>) is a finite decimal, \<open>NaN\<close> or an
  infinity. Sums and products are exact.
\<close>

datatype bignum = Fin rat | PInf | NInf | NaN

fun plus_bn :: "bignum \<Rightarrow> bignum \<Rightarrow> bignum" where
  "plus_bn NaN _ = NaN"
| "plus_bn _ NaN = NaN"
| "plus_bn (Fin a) (Fin b) = Fin (a + b)"
| "plus_bn PInf NInf = NaN"
| "plus_bn NInf PInf = NaN"
| "plus_bn PInf _ = PInf"
| "plus_bn NInf _ = NInf"
| "plus_bn (Fin a) b = b"

definition inf_of_sign :: "bool \<Rightarrow> bignum" where
  "inf_of_sign negative = (if negative then NInf else PInf)"

fun multipliedBy :: "bignum \<Rightarrow> bignum \<Rightarrow> bignum" where
  "multipliedBy NaN _ = NaN"
| "multipliedBy _ NaN = NaN"
| "multipliedBy (Fin a) (Fin b) = Fin (a * b)"
| "multipliedBy (Fin a) PInf = (if a = 0 then NaN else inf_of_sign (a < 0))"
| "multipliedBy (Fin a) NInf = (if a = 0 then NaN else inf_of_sign (0 < a))"
| "multipliedBy PInf (Fin b) = (if b = 0 then NaN else inf_of_sign (b < 0))"
| "multipliedBy NInf (Fin b) = (if b = 0 then NaN else inf_of_sign (0 < b))"
| "multipliedBy PInf PInf = PInf"
| "multipliedBy NInf NInf = PInf"
| "multipliedBy PInf NInf = NInf"
| "multipliedBy NInf PInf = NInf"

text \<open>
  \<open>scaled dp x\<close> is \<open>|x| * 10^dp\<close> rounded to the nearest integer, a tie going away
  from zero, and \<open>round_half_up dp x\<close> is \<open>x\<close> rounded in that way to \<open>dp\<close> decimal
  places. This is \<open>ROUND_HALF_UP\<close>, the rounding mode of the library that the
  provider leaves in place.
\<close>

definition scaled :: "nat \<Rightarrow> rat \<Rightarrow> nat" where
  "scaled dp x = nat \<lfloor>\<bar>x\<bar> * 10 ^ dp + 1 / 2\<rfloor>"

definition round_half_up :: "nat \<Rightarrow> rat \<Rightarrow> rat" where
  "round_half_up dp x = sgn x * of_nat (scaled dp x) / 10 ^ dp"

text \<open>
  A quotient is rounded to \<open>DECIMAL_PLACES\<close> decimal places, 20 unless configured
  otherwise. Division by zero does not raise: a non-zero finite value divided by zero is
  an infinity of the dividend's sign, and \<open>0 / 0\<close> is \<open>NaN\<close>.
\<close>

definition DECIMAL_PLACES :: nat where
  "DECIMAL_PLACES = 20"

fun dividedBy :: "bignum \<Rightarrow> bignum \<Rightarrow> bignum" where
  "dividedBy NaN _ = NaN"
| "dividedBy _ NaN = NaN"
| "dividedBy (Fin a) (Fin b) =
     (if b = 0 then (if a = 0 then NaN else inf_of_sign (a < 0))
      else Fin (round_half_up DECIMAL_PLACES (a / b)))"
| "dividedBy (Fin a) _ = Fin 0"
| "dividedBy PInf (Fin b) = inf_of_sign (b < 0)"
| "dividedBy NInf (Fin b) = inf_of_sign (0 \<le> b)"
| "dividedBy _ _ = NaN"

fun isGreaterThan :: "bignum \<Rightarrow> bignum \<Rightarrow> bool" where
  "isGreaterThan NaN _ = False"
| "isGreaterThan _ NaN = False"
| "isGreaterThan (Fin a) (Fin b) = (b < a)"
| "isGreaterThan PInf PInf = False"
| "isGreaterThan PInf _ = True"
| "isGreaterThan NInf _ = False"
| "isGreaterThan (Fin a) NInf = True"
| "isGreaterThan (Fin a) PInf = False"

definition digit_char :: "nat \<Rightarrow> char" where
  "digit_char d = ''0123456789'' ! (d mod 10)"

fun show_nat :: "nat \<Rightarrow> string" where
  "show_nat n = (if n < 10 then [digit_char n]
                 else show_nat (n div 10) @ [digit_char (n mod 10)])"

declare show_nat.simps [simp del]

text \<open>
  \<open>toFixed\<close> rounds in the same mode. \<open>frac_digits\<close> pads the fractional part with
  leading zeros to \<open>dp\<close> digits. The sign printed is the sign of the value before it
  is rounded: a negative value that rounds to zero is printed as \<open>-0.00\<close>.
\<close>

definition frac_digits :: "nat \<Rightarrow> nat \<Rightarrow> string" where
  "frac_digits dp f = replicate (dp - length (show_nat f)) (CHR ''0'') @ show_nat f"

fun toFixed :: "nat \<Rightarrow> bignum \<Rightarrow> string" where
  "toFixed dp NaN = ''NaN''"
| "toFixed dp PInf = ''Infinity''"
| "toFixed dp NInf = ''-Infinity''"
| "toFixed dp (Fin x) =
     (let c = scaled dp x in
        (if x < 0 then ''-'' else '''')
        @ show_nat (c div 10 ^ dp)
        @ (if dp = 0 then '''' else ''.'' @ frac_digits dp (c mod 10 ^ dp)))"

declare toFixed.simps [simp del]

section \<open>Data model\<close>

text \<open>
  Modelled from the spec: the interfaces of \<open>../types/token\<close> are not among the
  sources; the records below carry the fields that \<open>token.ts\<close> reads, typed as the
  spec's data model and the code's use of them say. Fields the provider only copies
  from a response and never reads again (most of the trade data) are left out.
  A unique-wallet percent change may be \<open>null\<close> or absent, which is \<open>None\<close>.
\<close>

record TokenSecurityData =
  ownerBalance :: string
  creatorBalance :: string
  ownerPercentage :: rat
  creatorPercentage :: rat
  top10HolderBalance :: string
  top10HolderPercent :: rat

record TokenTradeData =
  holder :: rat
  price :: rat
  price_change_12h_percent :: rat
  price_change_24h_percent :: rat
  unique_wallet_24h :: rat
  unique_wallet_30m_change_percent :: "rat option"
  unique_wallet_1h_change_percent :: "rat option"
  unique_wallet_2h_change_percent :: "rat option"
  unique_wallet_4h_change_percent :: "rat option"
  unique_wallet_8h_change_percent :: "rat option"
  unique_wallet_24h_change_percent :: "rat option"
  volume_24h_usd :: rat

text \<open>
  A holder's balance is a decimal string in the source, written by
  \<open>balance.toString()\<close> and read back by \<open>new BigNumber(holder.balance)\<close>; the model
  keeps the number the string denotes.
\<close>

record HolderData =
  address :: string
  balance :: rat

record HighValueHolder =
  holderAddress :: string
  balanceUsd :: string

text \<open>
  A pair of the DexScreener answer is used as the upstream sent it. Its \<open>volume\<close>,
  \<open>liquidity\<close> and \<open>boosts\<close> objects may be absent, which is \<open>None\<close>; where they
  are present the fields hold \<open>volume.h24\<close>, \<open>liquidity.usd\<close> and \<open>boosts.active\<close>.
\<close>

record DexScreenerPair =
  dexId :: string
  url :: string
  priceUsd :: string
  volume_h24 :: "rat option"
  liquidity_usd :: "rat option"
  boosts_active :: "rat option"

record DexScreenerData =
  schemaVersion :: string
  pairs :: "DexScreenerPair list"

record ProcessedTokenData =
  security :: TokenSecurityData
  tradeData :: TokenTradeData
  holderDistributionTrend :: string
  highValueHolders :: "HighValueHolder list"
  recentTrades :: bool
  highSupplyHoldersCount :: nat
  dexScreenerData :: DexScreenerData
  isDexScreenerListed :: bool
  isDexScreenerPaid :: bool

section \<open>Two-tier cache\<close>

text \<open>
  A cache tier maps a key to a value and the time (epoch milliseconds) at which the
  entry expires. The file tier is the directory \<open>cacheDir\<close>, one file
  \<open>{data, expiry}\<close> per key; reading and writing it are taken to succeed.

  Modelled from the spec: the memory tier is the package node-cache, which is not part
  of the repository. It is a key-value map with a per-key time to live, here the
  \<open>stdTTL\<close> of 300 seconds given to its constructor; an entry is valid while
  \<open>now < expiresAt\<close>, and an expired entry is deleted by the read that finds it.
  Nothing that is stated below depends on the side on which the instant of expiry
  itself falls.

  Each operation reads the clock once: \<open>t\<close> is the value of \<open>Date.now()\<close>.
\<close>

type_synonym 'v tier = "string \<Rightarrow> ('v \<times> nat) option"

record 'v cache =
  memory :: "'v tier"
  files :: "'v tier"

definition stdTTL :: nat where
  "stdTTL = 300"

definition NodeCache_get :: "nat \<Rightarrow> string \<Rightarrow> 'v tier \<Rightarrow> 'v option \<times> 'v tier" where
  "NodeCache_get t k m =
     (case m k of
        None \<Rightarrow> (None, m)
      | Some (v, expiresAt) \<Rightarrow> if t < expiresAt then (Some v, m) else (None, m(k := None)))"

definition NodeCache_set :: "nat \<Rightarrow> string \<Rightarrow> 'v \<Rightarrow> 'v tier \<Rightarrow> 'v tier" where
  "NodeCache_set t k v m = m(k \<mapsto> (v, t + stdTTL * 1000))"

definition readCacheFromFile :: "nat \<Rightarrow> string \<Rightarrow> 'v tier \<Rightarrow> 'v option \<times> 'v tier" where
  "readCacheFromFile t cacheKey fs =
     (case fs cacheKey of
        None \<Rightarrow> (None, fs)
      | Some (d, expiry) \<Rightarrow>
          if t < expiry then (Some d, fs) else (None, fs(cacheKey := None)))"

definition writeCacheToFile :: "nat \<Rightarrow> string \<Rightarrow> 'v \<Rightarrow> 'v tier \<Rightarrow> 'v tier" where
  "writeCacheToFile t cacheKey d fs = fs(cacheKey \<mapsto> (d, t + 300000))"

text \<open>
  \<open>getCachedData\<close> tests what it read with \<open>if (cachedData)\<close>: a value that
  JavaScript takes for false (\<open>0\<close>, the empty string, \<open>false\<close>, \<open>null\<close>) counts as a
  miss. \<open>truthy\<close> says which values of the cached type pass that test.
\<close>

definition getCachedData ::
    "('v \<Rightarrow> bool) \<Rightarrow> nat \<Rightarrow> string \<Rightarrow> 'v cache \<Rightarrow> 'v option \<times> 'v cache" where
  "getCachedData truthy t cacheKey c =
     (case NodeCache_get t cacheKey (memory c) of
        (cachedData, m) \<Rightarrow>
          if (case cachedData of None \<Rightarrow> False | Some d \<Rightarrow> truthy d)
          then (cachedData, \<lparr> memory = m, files = files c \<rparr>)
          else
            (case readCacheFromFile t cacheKey (files c) of
               (fileCachedData, fs) \<Rightarrow>
                 (case fileCachedData of
                    None \<Rightarrow> (None, \<lparr> memory = m, files = fs \<rparr>)
                  | Some d \<Rightarrow>
                      if truthy d
                      then (Some d, \<lparr> memory = NodeCache_set t cacheKey d m, files = fs \<rparr>)
                      else (None, \<lparr> memory = m, files = fs \<rparr>))))"

definition setCachedData :: "nat \<Rightarrow> string \<Rightarrow> 'v \<Rightarrow> 'v cache \<Rightarrow> 'v cache" where
  "setCachedData t cacheKey d c =
     \<lparr> memory = NodeCache_set t cacheKey d (memory c),
       files = writeCacheToFile t cacheKey d (files c) \<rparr>"

text \<open>
  The constructor of \<open>TokenProvider\<close> makes a new, empty memory tier and keeps the
  cache directory it finds. The exported provider constructs one for every report.
\<close>

definition new_TokenProvider :: "'v cache \<Rightarrow> 'v cache" where
  "new_TokenProvider c = \<lparr> memory = (\<lambda>k. None), files = files c \<rparr>"

text \<open>
  A client of the cache, for stating what a run of reads returns: it reads the key at a
  given time, or it is replaced by a newly constructed provider.
\<close>

datatype cache_op = Read nat | Restart

fun run_cache :: "('v \<Rightarrow> bool) \<Rightarrow> string \<Rightarrow> cache_op list \<Rightarrow> 'v cache \<Rightarrow> 'v option list" where
  "run_cache truthy k [] c = []"
| "run_cache truthy k (Read t # ops) c =
     (case getCachedData truthy t k c of (r, c') \<Rightarrow> r # run_cache truthy k ops c')"
| "run_cache truthy k (Restart # ops) c = run_cache truthy k ops (new_TokenProvider c)"

definition read_times :: "cache_op list \<Rightarrow> nat list" where
  "read_times ops = concat (map (\<lambda>x. case x of Read t \<Rightarrow> [t] | Restart \<Rightarrow> []) ops)"

text \<open>
  States of the two tiers at one key, for the invariants of the cache proofs: the file
  holds the entry and the memory tier, if it has the key, holds the same value; neither
  tier has the key.
\<close>

definition holds_entry :: "string \<Rightarrow> 'v \<Rightarrow> nat \<Rightarrow> 'v cache \<Rightarrow> bool" where
  "holds_entry k v e c =
     (files c k = Some (v, e) \<and> (case memory c k of None \<Rightarrow> True | Some (v', e') \<Rightarrow> v' = v))"

definition vacant :: "string \<Rightarrow> 'v cache \<Rightarrow> bool" where
  "vacant k c = (memory c k = None \<and> files c k = None)"

section \<open>Holder-distribution trend\<close>

definition analyzeHolderDistribution :: "TokenTradeData \<Rightarrow> string" where
  "analyzeHolderDistribution td =
     (let intervals =
            [unique_wallet_30m_change_percent td, unique_wallet_1h_change_percent td,
             unique_wallet_2h_change_percent td, unique_wallet_4h_change_percent td,
             unique_wallet_8h_change_percent td, unique_wallet_24h_change_percent td];
          validChanges = map the (filter (\<lambda>change. change \<noteq> None) intervals)
      in if length validChanges = 0 then ''stable''
         else
           let averageChange =
                 foldl (\<lambda>acc curr. acc + curr) 0 validChanges / of_nat (length validChanges);
               increaseThreshold = 10;
               decreaseThreshold = - 10
           in if averageChange > increaseThreshold then ''increasing''
              else if averageChange < decreaseThreshold then ''decreasing''
              else ''stable'')"




section \<open>Upstream services and the provider's state\<close>

text \<open>
  What \<open>fetch\<close> can do: reject (a transport failure, with the message of the error), or
  resolve to a response with its status, its body as text and the outcome of
  \<open>response.json()\<close>, which is the parsed body or the message of the error it rejects
  with. \<open>response.ok\<close> holds for the statuses 200 to 299.
\<close>

datatype 'j http = Rejected string | Response nat string "string + 'j"

definition response_ok :: "nat \<Rightarrow> bool" where
  "response_ok status = (200 \<le> status \<and> status \<le> 299)"

text \<open>
  What the code throws: an \<open>Error\<close> with its message, the \<open>TypeError\<close> of reading
  a property (named here) of \<open>undefined\<close>, or the value \<open>undefined\<close> itself.
\<close>

datatype error = Error string | TypeError string | Thrown_undefined

datatype endpoint = Security | Trade | DexScreener | Helius

datatype event = Request endpoint | Timeout nat

text \<open>
  The bodies the upstream services send, reduced to what the provider inspects. For the
  two Birdeye endpoints \<open>success\<close> is the truth value of \<open>data?.success\<close> and \<open>data\<close>
  is \<open>data?.data\<close>, \<open>None\<close> when it is absent or null; a body that is null has
  neither. For DexScreener and Helius a field that is absent is \<open>None\<close> as well.
\<close>

record 'a BirdeyeResponse =
  success :: bool
  data :: "'a option"

record DexScreenerResponse =
  response_schemaVersion :: string
  response_pairs :: "DexScreenerPair list option"

record TokenAccount =
  owner :: string
  amount :: rat

record HeliusResult =
  token_accounts :: "TokenAccount list option"
  cursor :: "string option"

text \<open>
  The environment of a provider: the token address it was constructed with, the
  services it calls, and two conversions of libraries that are not part of the
  repository, \<open>new BigNumber(s)\<close> for a string and the text a template literal gives a
  number. A service answers its \<open>n\<close>-th request (counted from 0) with a latency in
  milliseconds and an outcome; Helius sees the cursor of the request as well.
\<close>

record env =
  tokenAddress :: string
  BigNumber :: "string \<Rightarrow> bignum"
  number_text :: "rat \<Rightarrow> string"
  birdeye_security :: "nat \<Rightarrow> nat \<times> TokenSecurityData BirdeyeResponse http"
  birdeye_trade :: "nat \<Rightarrow> nat \<times> TokenTradeData BirdeyeResponse http"
  dexscreener :: "nat \<Rightarrow> nat \<times> DexScreenerResponse http"
  helius :: "nat \<Rightarrow> string option \<Rightarrow> nat \<times> HeliusResult http"

text \<open>
  The state a provider works on: the clock, the log of requests sent and timeouts
  waited, and the cache. The four kinds of cached values have keys with different
  prefixes, so each kind has a cache of its own type here.
\<close>

record state =
  clock :: nat
  trace :: "event list"
  securityCache :: "TokenSecurityData cache"
  tradeCache :: "TokenTradeData cache"
  dexCache :: "DexScreenerData cache"
  holderCache :: "HolderData list cache"

definition sent :: "endpoint \<Rightarrow> state \<Rightarrow> nat" where
  "sent ep s = length (filter (\<lambda>e. e = Request ep) (trace s))"

definition fetch :: "endpoint \<Rightarrow> (nat \<Rightarrow> nat \<times> 'j http) \<Rightarrow> state \<Rightarrow> 'j http \<times> state" where
  "fetch ep service s =
     (case service (sent ep s) of
        (took, r) \<Rightarrow> (r, s\<lparr> clock := clock s + took, trace := trace s @ [Request ep] \<rparr>))"

text \<open>The state after a request to an endpoint that took \<open>took\<close> milliseconds.\<close>

definition requested :: "endpoint \<Rightarrow> nat \<Rightarrow> state \<Rightarrow> state" where
  "requested ep took s = s\<lparr> clock := clock s + took, trace := trace s @ [Request ep] \<rparr>"

definition setTimeout :: "nat \<Rightarrow> state \<Rightarrow> state" where
  "setTimeout delay s = s\<lparr> clock := clock s + delay, trace := trace s @ [Timeout delay] \<rparr>"

section \<open>Resilient fetcher\<close>

definition MAX_RETRIES :: nat where
  "MAX_RETRIES = 3"

definition RETRY_DELAY :: nat where
  "RETRY_DELAY = 2000"

text \<open>The body of the \<open>try\<close> block of one iteration.\<close>

definition attempt :: "endpoint \<Rightarrow> (nat \<Rightarrow> nat \<times> 'j http) \<Rightarrow> state \<Rightarrow> (error + 'j) \<times> state" where
  "attempt ep service s =
     (case fetch ep service s of
        (Rejected msg, s1) \<Rightarrow> (Inl (Error msg), s1)
      | (Response status errorText body, s1) \<Rightarrow>
          if \<not> response_ok status
          then (Inl (Error (''HTTP error! status: '' @ show_nat status @ '', message: '' @ errorText)), s1)
          else (case body of Inl msg \<Rightarrow> (Inl (Error msg), s1) | Inr d \<Rightarrow> (Inr d, s1)))"

function fetchWithRetry_loop ::
    "endpoint \<Rightarrow> (nat \<Rightarrow> nat \<times> 'j http) \<Rightarrow> nat \<Rightarrow> error option \<Rightarrow> state \<Rightarrow> (error + 'j) \<times> state" where
  "fetchWithRetry_loop ep service i lastError s =
     (if i < MAX_RETRIES then
        (case attempt ep service s of
           (Inr d, s1) \<Rightarrow> (Inr d, s1)
         | (Inl e, s1) \<Rightarrow>
             if i < MAX_RETRIES - 1
             then fetchWithRetry_loop ep service (i + 1) (Some e) (setTimeout (RETRY_DELAY * 2 ^ i) s1)
             else fetchWithRetry_loop ep service (i + 1) (Some e) s1)
      else (case lastError of None \<Rightarrow> (Inl Thrown_undefined, s) | Some e \<Rightarrow> (Inl e, s)))"
  by pat_completeness auto
termination
  by (relation "measure (\<lambda>(ep, service, i, lastError, s). MAX_RETRIES - i)") auto

declare fetchWithRetry_loop.simps [simp del]

definition fetchWithRetry :: "endpoint \<Rightarrow> (nat \<Rightarrow> nat \<times> 'j http) \<Rightarrow> state \<Rightarrow> (error + 'j) \<times> state" where
  "fetchWithRetry ep service s = fetchWithRetry_loop ep service 0 None s"

text \<open>
  The error one response makes an attempt fail with, if any: the words of the claims
  about failing requests.
\<close>

definition failure_of :: "'j http \<Rightarrow> error option" where
  "failure_of r =
     (case r of
        Rejected msg \<Rightarrow> Some (Error msg)
      | Response status errorText body \<Rightarrow>
          if \<not> response_ok status
          then Some (Error (''HTTP error! status: '' @ show_nat status @ '', message: '' @ errorText))
          else (case body of Inl msg \<Rightarrow> Some (Error msg) | Inr d \<Rightarrow> None))"

section \<open>The three data fetches\<close>

text \<open>The cached values are objects and arrays, which JavaScript takes for true.\<close>

definition object_truthy :: "'v \<Rightarrow> bool" where
  "object_truthy v = True"

definition fetchTokenSecurity :: "env \<Rightarrow> state \<Rightarrow> (error + TokenSecurityData) \<times> state" where
  "fetchTokenSecurity env s =
     (let cacheKey = ''tokenSecurity_'' @ tokenAddress env in
      case getCachedData object_truthy (clock s) cacheKey (securityCache s) of
        (Some cachedData, c) \<Rightarrow> (Inr cachedData, s\<lparr> securityCache := c \<rparr>)
      | (None, c) \<Rightarrow>
          (case fetchWithRetry Security (birdeye_security env) (s\<lparr> securityCache := c \<rparr>) of
             (Inl e, s1) \<Rightarrow> (Inl e, s1)
           | (Inr d, s1) \<Rightarrow>
               (case data d of
                  None \<Rightarrow> (Inl (Error ''No token security data available''), s1)
                | Some sec \<Rightarrow>
                    if \<not> success d then (Inl (Error ''No token security data available''), s1)
                    else (Inr sec,
                          s1\<lparr> securityCache := setCachedData (clock s1) cacheKey sec (securityCache s1) \<rparr>))))"

text \<open>
  The trade fetch calls \<open>fetch\<close> once, with \<open>.then((res) => res.json())\<close> and a
  \<open>.catch\<close> that logs: a rejection of either promise leaves \<open>data\<close> undefined, and the
  status of the response is not looked at.
\<close>

definition fetchTokenTradeData :: "env \<Rightarrow> state \<Rightarrow> (error + TokenTradeData) \<times> state" where
  "fetchTokenTradeData env s =
     (let cacheKey = ''tokenTradeData_'' @ tokenAddress env in
      case getCachedData object_truthy (clock s) cacheKey (tradeCache s) of
        (Some cachedData, c) \<Rightarrow> (Inr cachedData, s\<lparr> tradeCache := c \<rparr>)
      | (None, c) \<Rightarrow>
          (case fetch Trade (birdeye_trade env) (s\<lparr> tradeCache := c \<rparr>) of
             (Rejected msg, s1) \<Rightarrow> (Inl (Error ''No token trade data available''), s1)
           | (Response status text (Inl msg), s1) \<Rightarrow> (Inl (Error ''No token trade data available''), s1)
           | (Response status text (Inr d), s1) \<Rightarrow>
               (case data d of
                  None \<Rightarrow> (Inl (Error ''No token trade data available''), s1)
                | Some td \<Rightarrow>
                    if \<not> success d then (Inl (Error ''No token trade data available''), s1)
                    else (Inr td,
                          s1\<lparr> tradeCache := setCachedData (clock s1) cacheKey td (tradeCache s1) \<rparr>))))"

text \<open>
  The DexScreener fetch wraps its request in \<open>try\<close>/\<open>catch\<close>: whatever is thrown
  there, also its own "No DexScreener data available", ends in the fixed answer with
  no pairs, which is not cached.
\<close>

definition no_dex_data :: DexScreenerData where
  "no_dex_data = \<lparr> schemaVersion = ''1.0.0'', pairs = [] \<rparr>"

definition fetchDexScreenerData :: "env \<Rightarrow> state \<Rightarrow> DexScreenerData \<times> state" where
  "fetchDexScreenerData env s =
     (let cacheKey = ''dexScreenerData_'' @ tokenAddress env in
      case getCachedData object_truthy (clock s) cacheKey (dexCache s) of
        (Some cachedData, c) \<Rightarrow> (cachedData, s\<lparr> dexCache := c \<rparr>)
      | (None, c) \<Rightarrow>
          (case fetch DexScreener (dexscreener env) (s\<lparr> dexCache := c \<rparr>) of
             (Rejected msg, s1) \<Rightarrow> (no_dex_data, s1)
           | (Response status text (Inl msg), s1) \<Rightarrow> (no_dex_data, s1)
           | (Response status text (Inr d), s1) \<Rightarrow>
               (case response_pairs d of
                  None \<Rightarrow> (no_dex_data, s1)
                | Some ps \<Rightarrow>
                    (let dexData = \<lparr> schemaVersion = response_schemaVersion d, pairs = ps \<rparr>
                     in (dexData,
                         s1\<lparr> dexCache := setCachedData (clock s1) cacheKey dexData (dexCache s1) \<rparr>)))))"

text \<open>An answer of DexScreener that makes the fetch throw inside its \<open>try\<close> block.\<close>

definition dex_unusable :: "DexScreenerResponse http \<Rightarrow> bool" where
  "dex_unusable r =
     (case r of
        Rejected msg \<Rightarrow> True
      | Response status text body \<Rightarrow>
          (case body of Inl msg \<Rightarrow> True | Inr d \<Rightarrow> response_pairs d = None))"

text \<open>A miss of both tiers for the DexScreener data.\<close>

definition dex_cache_miss :: "env \<Rightarrow> state \<Rightarrow> bool" where
  "dex_cache_miss env s =
     (fst (getCachedData object_truthy (clock s) (''dexScreenerData_'' @ tokenAddress env) (dexCache s))
        = None)"

section \<open>Holder aggregator\<close>

text \<open>
  \<open>allHoldersMap\<close> is a JavaScript \<open>Map\<close>: its keys are unique and it iterates in
  the order in which the keys were first set. It is an association list here;
  \<open>Map_set\<close> replaces the value of a key in place, or appends a new key.
\<close>

type_synonym holders_map = "(string \<times> rat) list"

fun Map_set :: "string \<Rightarrow> rat \<Rightarrow> holders_map \<Rightarrow> holders_map" where
  "Map_set k v [] = [(k, v)]"
| "Map_set k v ((k', v') # m) = (if k' = k then (k, v) # m else (k', v') # Map_set k v m)"

definition Map_get :: "holders_map \<Rightarrow> string \<Rightarrow> rat option" where
  "Map_get m k = map_of m k"

text \<open>The callback of \<open>forEach\<close> over the accounts of one page, and the whole page.\<close>

definition add_account :: "holders_map \<Rightarrow> TokenAccount \<Rightarrow> holders_map" where
  "add_account allHoldersMap account =
     (let balance = amount account in
      case Map_get allHoldersMap (owner account) of
        Some b \<Rightarrow> Map_set (owner account) (b + balance) allHoldersMap
      | None \<Rightarrow> Map_set (owner account) balance allHoldersMap)"

definition add_page :: "holders_map \<Rightarrow> TokenAccount list \<Rightarrow> holders_map" where
  "add_page allHoldersMap accounts = foldl add_account allHoldersMap accounts"

text \<open>
  The \<open>while (true)\<close> loop of \<open>fetchHolderList\<close>, from the test \<open>page > 2\<close> on. A
  request that rejects, or whose body is not JSON, throws to the \<open>catch\<close> of
  \<open>fetchHolderList\<close>.
\<close>

function holder_pages ::
    "env \<Rightarrow> nat \<Rightarrow> string option \<Rightarrow> holders_map \<Rightarrow> state \<Rightarrow> (error + holders_map) \<times> state" where
  "holder_pages env page cur allHoldersMap s =
     (if page > 2 then (Inr allHoldersMap, s)
      else
        (case fetch Helius (\<lambda>n. helius env n cur) s of
           (Rejected msg, s1) \<Rightarrow> (Inl (Error msg), s1)
         | (Response status text (Inl msg), s1) \<Rightarrow> (Inl (Error msg), s1)
         | (Response status text (Inr d), s1) \<Rightarrow>
             (case token_accounts d of
                None \<Rightarrow> (Inr allHoldersMap, s1)
              | Some accounts \<Rightarrow>
                  if length accounts = 0 then (Inr allHoldersMap, s1)
                  else holder_pages env (page + 1) (cursor d) (add_page allHoldersMap accounts) s1)))"
  by pat_completeness auto
termination
  by (relation "measure (\<lambda>(env, page, cur, allHoldersMap, s). 3 - page)") auto

declare holder_pages.simps [simp del]

definition materialize :: "holders_map \<Rightarrow> HolderData list" where
  "materialize allHoldersMap = map (\<lambda>(a, b). \<lparr> address = a, balance = b \<rparr>) allHoldersMap"

definition fetchHolderList :: "env \<Rightarrow> state \<Rightarrow> (error + HolderData list) \<times> state" where
  "fetchHolderList env s =
     (let cacheKey = ''holderList_'' @ tokenAddress env in
      case getCachedData object_truthy (clock s) cacheKey (holderCache s) of
        (Some cachedData, c) \<Rightarrow> (Inr cachedData, s\<lparr> holderCache := c \<rparr>)
      | (None, c) \<Rightarrow>
          (case holder_pages env 1 None [] (s\<lparr> holderCache := c \<rparr>) of
             (Inl e, s1) \<Rightarrow> (Inl (Error ''Failed to fetch holder list from Helius.''), s1)
           | (Inr allHoldersMap, s1) \<Rightarrow>
               (let holders = materialize allHoldersMap
                in (Inr holders,
                    s1\<lparr> holderCache := setCachedData (clock s1) cacheKey holders (holderCache s1) \<rparr>))))"



text \<open>
  What one answer of Helius means to the loop: the request failed, the answer has no
  holder (the list is absent or empty), or it has accounts and a cursor.
\<close>

datatype page_outcome = Failed | No_more | Accounts "TokenAccount list" "string option"

definition page_of :: "HeliusResult http \<Rightarrow> page_outcome" where
  "page_of r =
     (case r of
        Rejected msg \<Rightarrow> Failed
      | Response status text body \<Rightarrow>
          (case body of
             Inl msg \<Rightarrow> Failed
           | Inr d \<Rightarrow>
               (case token_accounts d of
                  None \<Rightarrow> No_more
                | Some accounts \<Rightarrow> if accounts = [] then No_more else Accounts accounts (cursor d))))"

text \<open>The cache key of the holder list, and a miss of both tiers for it.\<close>

definition holder_key :: "env \<Rightarrow> string" where
  "holder_key env = ''holderList_'' @ tokenAddress env"

definition holder_cache_miss :: "env \<Rightarrow> state \<Rightarrow> bool" where
  "holder_cache_miss env s =
     (fst (getCachedData object_truthy (clock s) (holder_key env) (holderCache s)) = None)"

section \<open>Analytics over holders and trades\<close>

definition filterHighValueHolders ::
    "env \<Rightarrow> state \<Rightarrow> TokenTradeData \<Rightarrow> (error + HighValueHolder list) \<times> state" where
  "filterHighValueHolders env s td =
     (case fetchHolderList env s of
        (Inl e, s1) \<Rightarrow> (Inl e, s1)
      | (Inr holdersData, s1) \<Rightarrow>
          (let tokenPriceUsd = Fin (price td)
           in (Inr (map (\<lambda>h. \<lparr> holderAddress = address h,
                                 balanceUsd = toFixed 2 (multipliedBy (Fin (balance h)) tokenPriceUsd) \<rparr>)
                     (filter (\<lambda>h. isGreaterThan (multipliedBy (Fin (balance h)) tokenPriceUsd) (Fin 5))
                        holdersData)),
               s1)))"

definition checkRecentTrades :: "TokenTradeData \<Rightarrow> bool" where
  "checkRecentTrades td = isGreaterThan (Fin (volume_24h_usd td)) (Fin 0)"

text \<open>
  The whole body of \<open>countHighSupplyHolders\<close> is inside \<open>try\<close>; its \<open>catch\<close>
  returns 0.
\<close>

definition countHighSupplyHolders :: "env \<Rightarrow> state \<Rightarrow> TokenSecurityData \<Rightarrow> nat \<times> state" where
  "countHighSupplyHolders env s sd =
     (let ownerBal = BigNumber env (ownerBalance sd);
          totalSupply = plus_bn ownerBal (BigNumber env (creatorBalance sd))
      in case fetchHolderList env s of
           (Inl e, s1) \<Rightarrow> (0, s1)
         | (Inr highSupplyHolders, s1) \<Rightarrow>
             (length (filter (\<lambda>h. isGreaterThan (dividedBy (Fin (balance h)) totalSupply) (Fin (2 / 100)))
                        highSupplyHolders),
              s1))"

section \<open>Composite report\<close>

definition getProcessedTokenData :: "env \<Rightarrow> state \<Rightarrow> (error + ProcessedTokenData) \<times> state" where
  "getProcessedTokenData env s =
     (case fetchTokenSecurity env s of
        (Inl e, s1) \<Rightarrow> (Inl e, s1)
      | (Inr sec, s1) \<Rightarrow>
     (case fetchTokenTradeData env s1 of
        (Inl e, s2) \<Rightarrow> (Inl e, s2)
      | (Inr td, s2) \<Rightarrow>
     (case fetchDexScreenerData env s2 of
        (dexData, s3) \<Rightarrow>
     (let trend = analyzeHolderDistribution td in
      case filterHighValueHolders env s3 td of
        (Inl e, s4) \<Rightarrow> (Inl e, s4)
      | (Inr hvh, s4) \<Rightarrow>
     (let recent = checkRecentTrades td in
      case countHighSupplyHolders env s4 sec of
        (cnt, s5) \<Rightarrow>
          (Inr \<lparr> security = sec,
                 tradeData = td,
                 holderDistributionTrend = trend,
                 highValueHolders = hvh,
                 recentTrades = recent,
                 highSupplyHoldersCount = cnt,
                 dexScreenerData = dexData,
                 isDexScreenerListed = (length (pairs dexData) > 0),
                 isDexScreenerPaid =
                   list_ex (\<lambda>pair. case boosts_active pair of None \<Rightarrow> False | Some a \<Rightarrow> a > 0)
                     (pairs dexData) \<rparr>,
           s5))))))"

definition LF :: string where
  "LF = [CHR 0x0A]"

definition yes_no :: "bool \<Rightarrow> string" where
  "yes_no b = (if b then ''Yes'' else ''No'')"

text \<open>
  The lines of one pair. \<open>pair.volume.h24\<close> and \<open>pair.liquidity.usd\<close> are read
  without a guard, \<open>pair.boosts && pair.boosts.active\<close> with one.
\<close>

definition format_pair :: "env \<Rightarrow> nat \<times> DexScreenerPair \<Rightarrow> error + string" where
  "format_pair env ip =
     (case ip of (index, pair) \<Rightarrow>
        (case volume_h24 pair of
           None \<Rightarrow> Inl (TypeError ''h24'')
         | Some h24 \<Rightarrow>
             (case liquidity_usd pair of
                None \<Rightarrow> Inl (TypeError ''usd'')
              | Some usd \<Rightarrow>
                  Inr (LF @ ''**Pair '' @ show_nat (index + 1) @ '':**'' @ LF
                       @ ''- DEX: '' @ dexId pair @ LF
                       @ ''- URL: '' @ url pair @ LF
                       @ ''- Price USD: $'' @ toFixed 6 (BigNumber env (priceUsd pair)) @ LF
                       @ ''- Volume (24h USD): $'' @ toFixed 2 (Fin h24) @ LF
                       @ ''- Boosts Active: ''
                         @ (case boosts_active pair of
                              None \<Rightarrow> ''undefined''
                            | Some a \<Rightarrow> number_text env a) @ LF
                       @ ''- Liquidity USD: $'' @ toFixed 2 (Fin usd) @ LF))))"

text \<open>The \<open>forEach\<close> over the pairs: the first pair that throws ends it.\<close>

fun format_pairs :: "env \<Rightarrow> (nat \<times> DexScreenerPair) list \<Rightarrow> error + string" where
  "format_pairs env [] = Inr []"
| "format_pairs env (ip # rest) =
     (case format_pair env ip of
        Inl e \<Rightarrow> Inl e
      | Inr lines \<Rightarrow>
          (case format_pairs env rest of Inl e \<Rightarrow> Inl e | Inr others \<Rightarrow> Inr (lines @ others)))"

definition formatTokenData :: "env \<Rightarrow> ProcessedTokenData \<Rightarrow> error + string" where
  "formatTokenData env d =
     (let output =
        ''**Token Security and Trade Report**'' @ LF
        @ ''Token Address: '' @ tokenAddress env @ LF @ LF
        @ ''**Ownership Distribution:**'' @ LF
        @ ''- Owner Balance: '' @ ownerBalance (security d) @ LF
        @ ''- Creator Balance: '' @ creatorBalance (security d) @ LF
        @ ''- Owner Percentage: '' @ number_text env (ownerPercentage (security d)) @ ''%'' @ LF
        @ ''- Creator Percentage: '' @ number_text env (creatorPercentage (security d)) @ ''%'' @ LF
        @ ''- Top 10 Holders Balance: '' @ top10HolderBalance (security d) @ LF
        @ ''- Top 10 Holders Percentage: '' @ number_text env (top10HolderPercent (security d))
          @ ''%'' @ LF @ LF
        @ ''**Trade Data:**'' @ LF
        @ ''- Holders: '' @ number_text env (holder (tradeData d)) @ LF
        @ ''- Unique Wallets (24h): '' @ number_text env (unique_wallet_24h (tradeData d)) @ LF
        @ ''- Price Change (24h): '' @ number_text env (price_change_24h_percent (tradeData d))
          @ ''%'' @ LF
        @ ''- Price Change (12h): '' @ number_text env (price_change_12h_percent (tradeData d))
          @ ''%'' @ LF
        @ ''- Volume (24h USD): $'' @ toFixed 2 (Fin (volume_24h_usd (tradeData d))) @ LF
        @ ''- Current Price: $'' @ toFixed 2 (Fin (price (tradeData d))) @ LF @ LF
        @ ''**Holder Distribution Trend:** '' @ holderDistributionTrend d @ LF @ LF
        @ ''**High-Value Holders (>$5 USD):**'' @ LF
        @ (if length (highValueHolders d) = 0
           then ''- No high-value holders found or data not available.'' @ LF
           else concat (map (\<lambda>h. ''- '' @ holderAddress h @ '': $'' @ balanceUsd h @ LF)
                          (highValueHolders d)))
        @ LF
        @ ''**Recent Trades (Last 24h):** '' @ yes_no (recentTrades d) @ LF @ LF
        @ ''**Holders with >2% Supply:** '' @ show_nat (highSupplyHoldersCount d) @ LF @ LF
        @ ''**DexScreener Listing:** '' @ yes_no (isDexScreenerListed d) @ LF
      in if isDexScreenerListed d
         then
           (case format_pairs env (enumerate 0 (pairs (dexScreenerData d))) of
              Inl e \<Rightarrow> Inl e
            | Inr pair_lines \<Rightarrow>
                Inr (output
                     @ ''- Listing Type: '' @ (if isDexScreenerPaid d then ''Paid'' else ''Free'') @ LF
                     @ ''- Number of DexPairs: '' @ show_nat (length (pairs (dexScreenerData d)))
                       @ LF @ LF
                     @ ''**DexScreener Pairs:**'' @ LF
                     @ pair_lines
                     @ LF))
         else Inr (output @ LF))"

definition apology :: string where
  "apology = ''Unable to fetch token information. Please try again later.''"

text \<open>Both calls are inside the \<open>try\<close> block; the \<open>catch\<close> returns the fixed sentence.\<close>

definition getFormattedTokenReport :: "env \<Rightarrow> state \<Rightarrow> string \<times> state" where
  "getFormattedTokenReport env s =
     (case getProcessedTokenData env s of
        (Inl e, s1) \<Rightarrow> (apology, s1)
      | (Inr processedData, s1) \<Rightarrow>
          (case formatTokenData env processedData of
             Inl e \<Rightarrow> (apology, s1)
           | Inr report \<Rightarrow> (report, s1)))"

section \<open>Sample inputs\<close>

text \<open>
  A provider that starts with an empty cache at time 0, and an environment in which
  every service answers: security data with owner balance 100 and creator balance 50,
  a price of 2, one DexScreener pair, and holder pages that never run out.
\<close>

definition fresh :: state where
  "fresh = \<lparr> clock = 0, trace = [],
             securityCache = \<lparr> memory = (\<lambda>k. None), files = (\<lambda>k. None) \<rparr>,
             tradeCache = \<lparr> memory = (\<lambda>k. None), files = (\<lambda>k. None) \<rparr>,
             dexCache = \<lparr> memory = (\<lambda>k. None), files = (\<lambda>k. None) \<rparr>,
             holderCache = \<lparr> memory = (\<lambda>k. None), files = (\<lambda>k. None) \<rparr> \<rparr>"

definition answer :: "'j \<Rightarrow> nat \<times> 'j http" where
  "answer j = (5, Response 200 ''{}'' (Inr j))"

text \<open>Trade data with the six unique-wallet percent changes of a list.\<close>

definition trade_with_changes :: "rat option list \<Rightarrow> TokenTradeData" where
  "trade_with_changes ws =
     \<lparr> holder = 120, price = 2, price_change_12h_percent = 1, price_change_24h_percent = 3,
       unique_wallet_24h = 40,
       unique_wallet_30m_change_percent = ws ! 0, unique_wallet_1h_change_percent = ws ! 1,
       unique_wallet_2h_change_percent = ws ! 2, unique_wallet_4h_change_percent = ws ! 3,
       unique_wallet_8h_change_percent = ws ! 4, unique_wallet_24h_change_percent = ws ! 5,
       volume_24h_usd = 1000 \<rparr>"

definition sample_security :: TokenSecurityData where
  "sample_security =
     \<lparr> ownerBalance = ''100'', creatorBalance = ''50'', ownerPercentage = 10,
       creatorPercentage = 5, top10HolderBalance = ''500'', top10HolderPercent = 50 \<rparr>"

text \<open>Security data with a creator balance just below 175.\<close>

definition hairline_security :: TokenSecurityData where
  "hairline_security = sample_security \<lparr> creatorBalance := ''174.99999999999999999999'' \<rparr>"

definition sample_trade :: TokenTradeData where
  "sample_trade = trade_with_changes [Some 12, None, Some 9, None, None, Some 15]"

definition sample_pair :: DexScreenerPair where
  "sample_pair =
     \<lparr> dexId = ''raydium'', url = ''https://dexscreener.com/solana/abc'', priceUsd = ''2'',
       volume_h24 = Some 1000, liquidity_usd = Some 2500, boosts_active = Some 1 \<rparr>"

definition sample_BigNumber :: "string \<Rightarrow> bignum" where
  "sample_BigNumber str =
     (if str = ''100'' then Fin 100 else if str = ''50'' then Fin 50
      else if str = ''2'' then Fin 2 else if str = ''0'' then Fin 0
      else if str = ''174.99999999999999999999''
      then Fin (17499999999999999999999 / 100000000000000000000)
      else NaN)"

definition sample_number_text :: "rat \<Rightarrow> string" where
  "sample_number_text r = show_nat (nat \<lfloor>r\<rfloor>)"

definition sample_pages :: "nat \<Rightarrow> string option \<Rightarrow> nat \<times> HeliusResult http" where
  "sample_pages n cur =
     (if n = 0
      then answer \<lparr> token_accounts =
                      Some [\<lparr> owner = ''addr1'', amount = 5 \<rparr>, \<lparr> owner = ''addr2'', amount = 2 \<rparr>,
                            \<lparr> owner = ''addr1'', amount = 1 / 2 \<rparr>],
                    cursor = Some ''c1'' \<rparr>
      else if n = 1
      then answer \<lparr> token_accounts =
                      Some [\<lparr> owner = ''addr3'', amount = 5 / 2 \<rparr>,
                            \<lparr> owner = ''addr4'', amount = 1003 / 400 \<rparr>],
                    cursor = Some ''c2'' \<rparr>
      else answer \<lparr> token_accounts = Some [\<lparr> owner = ''addr5'', amount = 1000 \<rparr>],
                    cursor = Some ''c3'' \<rparr>)"

definition healthy :: env where
  "healthy =
     \<lparr> tokenAddress = ''TKN'',
       BigNumber = sample_BigNumber,
       number_text = sample_number_text,
       birdeye_security = (\<lambda>n. answer \<lparr> success = True, data = Some sample_security \<rparr>),
       birdeye_trade = (\<lambda>n. answer \<lparr> success = True, data = Some sample_trade \<rparr>),
       dexscreener =
         (\<lambda>n. answer \<lparr> response_schemaVersion = ''1.0.0'', response_pairs = Some [sample_pair] \<rparr>),
       helius = sample_pages \<rparr>"

text \<open>
  Variations of the environment: a service that fails three times in three different
  ways, a service that rejects its first request only, services that are down, holder
  pages that end, and a pair without its liquidity object.
\<close>

definition failing :: "nat \<Rightarrow> nat \<times> 'j http" where
  "failing n =
     (if n = 0 then (7, Rejected ''ECONNRESET'')
      else if n = 1 then (9, Response 503 ''busy'' (Inl ''Unexpected token b''))
      else (11, Response 200 ''<html>'' (Inl ''Unexpected token <'')))"

definition security_down :: env where
  "security_down = healthy \<lparr> birdeye_security := failing \<rparr>"

definition security_flaky :: env where
  "security_flaky =
     healthy \<lparr> birdeye_security :=
       (\<lambda>n. if n = 0 then (7, Rejected ''ECONNRESET'')
             else answer \<lparr> success = True, data = Some sample_security \<rparr>) \<rparr>"

definition trade_flaky :: env where
  "trade_flaky =
     healthy \<lparr> birdeye_trade :=
       (\<lambda>n. if n = 0 then (7, Rejected ''ECONNRESET'')
             else answer \<lparr> success = True, data = Some sample_trade \<rparr>) \<rparr>"

definition dex_down :: env where
  "dex_down = healthy \<lparr> dexscreener := (\<lambda>n. (7, Rejected ''ECONNRESET'')) \<rparr>"

definition dex_no_liquidity :: env where
  "dex_no_liquidity =
     healthy \<lparr> dexscreener :=
       (\<lambda>n. answer \<lparr> response_schemaVersion = ''1.0.0'',
                      response_pairs = Some [sample_pair \<lparr> liquidity_usd := None \<rparr>] \<rparr>) \<rparr>"

definition helius_down :: env where
  "helius_down = healthy \<lparr> helius := (\<lambda>n cur. (7, Rejected ''ECONNRESET'')) \<rparr>"

definition helius_empty :: env where
  "helius_empty = healthy \<lparr> helius := (\<lambda>n cur. answer \<lparr> token_accounts = Some [], cursor = None \<rparr>) \<rparr>"

definition helius_one_page :: env where
  "helius_one_page =
     healthy \<lparr> helius :=
       (\<lambda>n cur. if n = 0 then sample_pages 0 cur
                 else answer \<lparr> token_accounts = None, cursor = None \<rparr>) \<rparr>"

text \<open>The holders of the first two sample pages, and the reports the sample runs give.\<close>

definition sample_holders :: "HolderData list" where
  "sample_holders =
     [\<lparr> address = ''addr1'', balance = 11 / 2 \<rparr>, \<lparr> address = ''addr2'', balance = 2 \<rparr>,
      \<lparr> address = ''addr3'', balance = 5 / 2 \<rparr>, \<lparr> address = ''addr4'', balance = 1003 / 400 \<rparr>]"

definition healthy_report :: ProcessedTokenData where
  "healthy_report =
     \<lparr> security = sample_security,
       tradeData = sample_trade,
       holderDistributionTrend = ''increasing'',
       highValueHolders =
         [\<lparr> holderAddress = ''addr1'', balanceUsd = ''11.00'' \<rparr>,
          \<lparr> holderAddress = ''addr4'', balanceUsd = ''5.02'' \<rparr>],
       recentTrades = True,
       highSupplyHoldersCount = 1,
       dexScreenerData = \<lparr> schemaVersion = ''1.0.0'', pairs = [sample_pair] \<rparr>,
       isDexScreenerListed = True,
       isDexScreenerPaid = True \<rparr>"

definition dex_down_report :: ProcessedTokenData where
  "dex_down_report =
     \<lparr> security = sample_security,
       tradeData = sample_trade,
       holderDistributionTrend = ''increasing'',
       highValueHolders =
         [\<lparr> holderAddress = ''addr1'', balanceUsd = ''11.00'' \<rparr>,
          \<lparr> holderAddress = ''addr4'', balanceUsd = ''5.02'' \<rparr>],
       recentTrades = True,
       highSupplyHoldersCount = 1,
       dexScreenerData = \<lparr> schemaVersion = ''1.0.0'', pairs = [] \<rparr>,
       isDexScreenerListed = False,
       isDexScreenerPaid = False \<rparr>"

definition no_liquidity_report :: ProcessedTokenData where
  "no_liquidity_report =
     healthy_report \<lparr> dexScreenerData :=
       \<lparr> schemaVersion = ''1.0.0'', pairs = [sample_pair \<lparr> liquidity_usd := None \<rparr>] \<rparr> \<rparr>"

definition healthy_text :: string where
  "healthy_text =
     ''**Token Security and Trade Report**'' @ LF
     @ ''Token Address: TKN'' @ LF @ LF
     @ ''**Ownership Distribution:**'' @ LF
     @ ''- Owner Balance: 100'' @ LF
     @ ''- Creator Balance: 50'' @ LF
     @ ''- Owner Percentage: 10%'' @ LF
     @ ''- Creator Percentage: 5%'' @ LF
     @ ''- Top 10 Holders Balance: 500'' @ LF
     @ ''- Top 10 Holders Percentage: 50%'' @ LF @ LF
     @ ''**Trade Data:**'' @ LF
     @ ''- Holders: 120'' @ LF
     @ ''- Unique Wallets (24h): 40'' @ LF
     @ ''- Price Change (24h): 3%'' @ LF
     @ ''- Price Change (12h): 1%'' @ LF
     @ ''- Volume (24h USD): $1000.00'' @ LF
     @ ''- Current Price: $2.00'' @ LF @ LF
     @ ''**Holder Distribution Trend:** increasing'' @ LF @ LF
     @ ''**High-Value Holders (>$5 USD):**'' @ LF
     @ ''- addr1: $11.00'' @ LF
     @ ''- addr4: $5.02'' @ LF
     @ LF
     @ ''**Recent Trades (Last 24h):** Yes'' @ LF @ LF
     @ ''**Holders with >2% Supply:** 1'' @ LF @ LF
     @ ''**DexScreener Listing:** Yes'' @ LF
     @ ''- Listing Type: Paid'' @ LF
     @ ''- Number of DexPairs: 1'' @ LF @ LF
     @ ''**DexScreener Pairs:**'' @ LF
     @ LF @ ''**Pair 1:**'' @ LF
     @ ''- DEX: raydium'' @ LF
     @ ''- URL: https://dexscreener.com/solana/abc'' @ LF
     @ ''- Price USD: $2.000000'' @ LF
     @ ''- Volume (24h USD): $1000.00'' @ LF
     @ ''- Boosts Active: 1'' @ LF
     @ ''- Liquidity USD: $2500.00'' @ LF
     @ LF"

text \<open>A cache with no entry in either tier.\<close>

definition empty_cache :: "string cache" where
  "empty_cache = \<lparr> memory = (\<lambda>k. None), files = (\<lambda>k. None) \<rparr>"

section \<open>Evaluation of the sample inputs\<close>

text \<open>
  The rules that evaluate the model on the sample inputs: the definitions, the decimal
  text of a numeral, and the floor of a quotient of numerals.
\<close>

lemmas sample_defs = healthy_def fresh_def answer_def sample_pages_def sample_security_def sample_trade_def
  sample_pair_def sample_BigNumber_def sample_number_text_def failing_def security_down_def
  trade_flaky_def dex_down_def helius_down_def trade_with_changes_def

lemmas more_sample_defs = helius_empty_def helius_one_page_def security_flaky_def sample_holders_def
  dex_down_report_def healthy_report_def

lemmas cache_defs = getCachedData_def setCachedData_def NodeCache_get_def NodeCache_set_def
  readCacheFromFile_def writeCacheToFile_def object_truthy_def stdTTL_def

lemmas run_defs = getProcessedTokenData_def fetchTokenSecurity_def fetchTokenTradeData_def
  fetchDexScreenerData_def fetchHolderList_def filterHighValueHolders_def countHighSupplyHolders_def
  checkRecentTrades_def analyzeHolderDistribution_def fetchWithRetry_def fetchWithRetry_loop.simps
  attempt_def fetch_def setTimeout_def sent_def holder_pages.simps add_page_def add_account_def
  Map_get_def materialize_def response_ok_def MAX_RETRIES_def RETRY_DELAY_def no_dex_data_def Let_def

lemma show_nat_numeral:
  "show_nat (numeral k) =
     (if (numeral k :: nat) < 10 then [digit_char (numeral k)]
      else show_nat (numeral k div 10) @ [digit_char (numeral k mod 10)])"
  by (rule show_nat.simps)

lemma show_nat_0: "show_nat 0 = ''0''"
  by (simp add: show_nat.simps [of 0] digit_char_def)

lemma show_nat_1: "show_nat (Suc 0) = ''1''"
  by (simp add: show_nat.simps [of "Suc 0"] digit_char_def)

lemma floor_rat_numeral: "\<lfloor>(numeral a :: rat) / numeral b\<rfloor> = numeral a div numeral b"
  by (metis floor_divide_of_int_eq of_int_numeral)

lemma replicate_numeral_unfold: "replicate (numeral k) x = x # replicate (pred_numeral k) x"
  by (simp add: numeral_eq_Suc)

lemmas text_defs = toFixed.simps scaled_def frac_digits_def show_nat_numeral show_nat_0 show_nat_1
  digit_char_def floor_rat_numeral

lemmas format_defs = formatTokenData_def format_pair_def LF_def yes_no_def enumerate_eq_zip
  replicate_numeral_unfold

lemma exceeds_after_rounding:
  "(2 / 100 < round_half_up 20 q) = (2 / 100 + 5 / 10 ^ 21 \<le> q)"
proof (cases "0 < q")
  case True
  have "(2 / 100 < round_half_up 20 q) = ((2 * 10 ^ 18 :: rat) < of_int \<lfloor>q * 10 ^ 20 + 1 / 2\<rfloor>)"
    using True by (simp add: round_half_up_def scaled_def abs_of_pos field_simps)
  also have "\<dots> = ((2 * 10 ^ 18 :: int) < \<lfloor>q * 10 ^ 20 + 1 / 2\<rfloor>)"
    by (metis of_int_less_iff of_int_numeral of_int_mult of_int_power)
  also have "\<dots> = ((2 * 10 ^ 18 + 1 :: int) \<le> \<lfloor>q * 10 ^ 20 + 1 / 2\<rfloor>)"
    by linarith
  also have "\<dots> = (of_int (2 * 10 ^ 18 + 1) \<le> q * 10 ^ 20 + 1 / 2)"
    by (rule le_floor_iff)
  also have "\<dots> = (2 / 100 + 5 / 10 ^ 21 \<le> q)"
    by (simp add: field_simps)
  finally show ?thesis .
next
  case False
  then have "round_half_up 20 q \<le> 0"
    by (simp add: round_half_up_def sgn_if divide_nonpos_nonneg not_less)
  with False show ?thesis by simp
qed

lemmas eval = run_defs cache_defs sample_defs more_sample_defs text_defs inf_of_sign_def
  round_half_up_def DECIMAL_PLACES_def

lemma pair_with_snd: "fst p = a \<Longrightarrow> p = (a, snd p)"
  by (cases p) simp

section \<open>Properties of the trend classification\<close>






section \<open>Properties of the two-tier cache\<close>

text \<open>
  What the two tiers do keep: a value that passes the truthiness test is returned by
  every read before the expiry of its file, whichever tier serves it and however many
  providers are constructed in between, and a read that misses the memory tier at or
  after the expiry of the file reports the value absent and deletes the file.
\<close>

lemma holds_entry_set: "holds_entry k v (t + 300000) (setCachedData t k v c)"
  by (simp add: holds_entry_def setCachedData_def NodeCache_set_def writeCacheToFile_def)

lemma holds_entry_restart: "holds_entry k v e c \<Longrightarrow> holds_entry k v e (new_TokenProvider c)"
  by (simp add: holds_entry_def new_TokenProvider_def)

lemma holds_entry_read:
  assumes "holds_entry k v e c" and "t < e" and "truthy v"
  shows "fst (getCachedData truthy t k c) = Some v \<and> holds_entry k v e (snd (getCachedData truthy t k c))"
  using assms
  by (auto simp: holds_entry_def getCachedData_def NodeCache_get_def NodeCache_set_def
      readCacheFromFile_def split: option.splits prod.splits if_splits)

lemma run_cache_before_expiry:
  assumes "holds_entry k v e c" and "truthy v" and "list_all (\<lambda>t. t < e) (read_times ops)"
  shows "run_cache truthy k ops c = map (\<lambda>t. Some v) (read_times ops)"
  using assms
proof (induction ops arbitrary: c)
  case Nil
  then show ?case by (simp add: read_times_def)
next
  case (Cons x ops)
  show ?case
  proof (cases x)
    case (Read t)
    with Cons.prems have t: "t < e" and rest: "list_all (\<lambda>t. t < e) (read_times ops)"
      by (simp_all add: read_times_def)
    obtain r c' where g: "getCachedData truthy t k c = (r, c')" by (cases "getCachedData truthy t k c")
    with holds_entry_read [where truthy = truthy and k = k and v = v and e = e and c = c and t = t]
      Cons.prems(1,2) t
    have "r = Some v" and "holds_entry k v e c'" by simp_all
    with Cons.IH [OF _ Cons.prems(2) rest] Read g show ?thesis
      by (simp add: read_times_def)
  next
    case Restart
    with Cons.prems have rest: "list_all (\<lambda>t. t < e) (read_times ops)"
      by (simp add: read_times_def)
    from Cons.IH [OF holds_entry_restart [OF Cons.prems(1)] Cons.prems(2) rest] Restart
    show ?thesis by (simp add: read_times_def)
  qed
qed

lemma file_tier_expired:
  "memory c k = None \<Longrightarrow> files c k = Some (v, e) \<Longrightarrow> e \<le> t \<Longrightarrow>
   getCachedData truthy t k c = (None, \<lparr> memory = memory c, files = (files c)(k := None) \<rparr>)"
  by (simp add: getCachedData_def NodeCache_get_def readCacheFromFile_def)

text \<open>
  A read that misses the memory tier and finds the file before its expiry copies the
  value into the memory tier with a time to live of its own, counted from the read: the
  expiry of the file is not carried over.
\<close>

lemma file_hit_promotes:
  "memory c k = None \<Longrightarrow> files c k = Some (v, e) \<Longrightarrow> t < e \<Longrightarrow> truthy v \<Longrightarrow>
   getCachedData truthy t k c = (Some v, \<lparr> memory = (memory c)(k \<mapsto> (v, t + 300000)), files = files c \<rparr>)"
  by (simp add: getCachedData_def NodeCache_get_def NodeCache_set_def readCacheFromFile_def stdTTL_def)

lemma promoted_copy_served:
  "memory c k = Some (v, p) \<Longrightarrow> t < p \<Longrightarrow> truthy v \<Longrightarrow> getCachedData truthy t k c = (Some v, c)"
  by (simp add: getCachedData_def NodeCache_get_def)

text \<open>
  C4. The code does not keep this bound. A value is stored at time 0, so that its file
  expires at 300 s. A provider constructed afterwards reads it at 200 s from the file,
  which copies it into the memory tier, and reads it again at 400 s: that read is served
  by the memory tier and returns the value, 100 s after the persisted expiry. A provider
  that reads for the first time at 400 s finds the file expired and reports the value
  absent.
\<close>

theorem cache_false_hit_after_promotion:
  "files (setCachedData 0 ''holderList_T'' ''v'' empty_cache) ''holderList_T'' = Some (''v'', 300000) \<and>
   run_cache (\<lambda>v. True) ''holderList_T'' [Restart, Read 200000, Read 400000]
     (setCachedData 0 ''holderList_T'' ''v'' empty_cache) = [Some ''v'', Some ''v''] \<and>
   run_cache (\<lambda>v. True) ''holderList_T'' [Restart, Read 400000]
     (setCachedData 0 ''holderList_T'' ''v'' empty_cache) = [None]"
  by (simp add: setCachedData_def empty_cache_def new_TokenProvider_def getCachedData_def
      NodeCache_get_def NodeCache_set_def readCacheFromFile_def writeCacheToFile_def stdTTL_def)

section \<open>Properties of the resilient fetcher\<close>

lemma sent_request [simp]:
  "sent ep (s\<lparr> clock := c, trace := trace s @ [Request ep'] \<rparr>) = (if ep' = ep then Suc (sent ep s) else sent ep s)"
  by (simp add: sent_def)

lemma sent_setTimeout [simp]: "sent ep (setTimeout d s) = sent ep s"
  by (simp add: sent_def setTimeout_def)

lemma attempt_failure:
  assumes "failure_of (snd (service (sent ep s))) = Some e"
  shows "attempt ep service s =
           (Inl e, s\<lparr> clock := clock s + fst (service (sent ep s)), trace := trace s @ [Request ep] \<rparr>)"
  using assms
  by (cases "service (sent ep s)")
     (auto simp: attempt_def fetch_def failure_of_def split: http.splits sum.splits if_splits)

lemma trace_setTimeout [simp]: "trace (setTimeout d s) = trace s @ [Timeout d]"
  by (simp add: setTimeout_def)

lemma clock_setTimeout [simp]: "clock (setTimeout d s) = clock s + d"
  by (simp add: setTimeout_def)

lemma fetchWithRetry_loop_retry:
  "i < 2 \<Longrightarrow> attempt ep service s = (Inl e, s1) \<Longrightarrow>
   fetchWithRetry_loop ep service i lastError s =
     fetchWithRetry_loop ep service (Suc i) (Some e) (setTimeout (2000 * 2 ^ i) s1)"
  by (subst fetchWithRetry_loop.simps) (simp add: MAX_RETRIES_def RETRY_DELAY_def)

lemma fetchWithRetry_loop_exit:
  "\<not> i < 3 \<Longrightarrow> fetchWithRetry_loop ep service i (Some e) s = (Inl e, s)"
  by (subst fetchWithRetry_loop.simps) (simp add: MAX_RETRIES_def)

lemma fetchWithRetry_loop_last:
  "attempt ep service s = (Inl e, s1) \<Longrightarrow>
   fetchWithRetry_loop ep service (Suc (Suc 0)) lastError s = (Inl e, s1)"
  by (subst fetchWithRetry_loop.simps) (simp add: MAX_RETRIES_def fetchWithRetry_loop_exit)

text \<open>
  C3. When every request fails, \<open>fetchWithRetry\<close> makes exactly three attempts, waits
  2000 ms before the second and 4000 ms before the third and not after it, and raises
  the error of the third attempt.
\<close>

theorem fetchWithRetry_exhausted:
  assumes "failure_of (snd (service (sent ep s))) = Some e1"
    and "failure_of (snd (service (sent ep s + 1))) = Some e2"
    and "failure_of (snd (service (sent ep s + 2))) = Some e3"
  shows "fst (fetchWithRetry ep service s) = Inl e3 \<and>
         trace (snd (fetchWithRetry ep service s)) =
           trace s @ [Request ep, Timeout 2000, Request ep, Timeout 4000, Request ep] \<and>
         clock (snd (fetchWithRetry ep service s)) =
           clock s + fst (service (sent ep s)) + 2000 + fst (service (sent ep s + 1)) + 4000
             + fst (service (sent ep s + 2))"
proof -
  define s1 where "s1 = s\<lparr> clock := clock s + fst (service (sent ep s)), trace := trace s @ [Request ep] \<rparr>"
  define w1 where "w1 = setTimeout (2000 * 2 ^ 0) s1"
  define s2 where "s2 = w1\<lparr> clock := clock w1 + fst (service (sent ep w1)), trace := trace w1 @ [Request ep] \<rparr>"
  define w2 where "w2 = setTimeout (2000 * 2 ^ Suc 0) s2"
  define s3 where "s3 = w2\<lparr> clock := clock w2 + fst (service (sent ep w2)), trace := trace w2 @ [Request ep] \<rparr>"
  have n1: "sent ep w1 = sent ep s + 1"
    by (simp add: w1_def s1_def sent_def setTimeout_def)
  have n2: "sent ep w2 = sent ep s + 2"
    by (simp add: w2_def s2_def w1_def s1_def sent_def setTimeout_def)
  have a1: "attempt ep service s = (Inl e1, s1)"
    unfolding s1_def using assms(1) by (rule attempt_failure)
  have a2: "attempt ep service w1 = (Inl e2, s2)"
    unfolding s2_def using assms(2) n1 by (intro attempt_failure) simp
  have a3: "attempt ep service w2 = (Inl e3, s3)"
    unfolding s3_def using assms(3) n2 by (intro attempt_failure) simp
  have "fetchWithRetry_loop ep service 0 None s = fetchWithRetry_loop ep service (Suc 0) (Some e1) w1"
    unfolding w1_def by (rule fetchWithRetry_loop_retry [OF _ a1]) simp
  also have "\<dots> = fetchWithRetry_loop ep service (Suc (Suc 0)) (Some e2) w2"
    unfolding w2_def by (rule fetchWithRetry_loop_retry [OF _ a2]) simp
  also have "\<dots> = (Inl e3, s3)"
    by (rule fetchWithRetry_loop_last [OF a3])
  finally have run: "fetchWithRetry ep service s = (Inl e3, s3)"
    by (simp add: fetchWithRetry_def)
  have tr: "trace s3 = trace s @ [Request ep, Timeout 2000, Request ep, Timeout 4000, Request ep]"
    by (simp add: s3_def w2_def s2_def w1_def s1_def setTimeout_def)
  have cl: "clock s3 = clock s + fst (service (sent ep s)) + 2000 + fst (service (sent ep s + 1)) + 4000
             + fst (service (sent ep s + 2))"
    using n1 n2 by (simp add: s3_def w2_def s2_def s1_def setTimeout_def) (simp add: w1_def setTimeout_def s1_def)
  show ?thesis
    by (simp only: run fst_conv snd_conv tr cl)
qed

text \<open>
  A security service that rejects the first request, answers the second with status 503
  and the third with a body that is not JSON: the error raised is the third one, after
  6000 ms of waiting and 27 ms of requests.
\<close>

theorem fetchWithRetry_exhausted_witness:
  "failure_of (snd (birdeye_security security_down 0)) = Some (Error ''ECONNRESET'') \<and>
   failure_of (snd (birdeye_security security_down 1)) =
     Some (Error ''HTTP error! status: 503, message: busy'') \<and>
   failure_of (snd (birdeye_security security_down 2)) = Some (Error ''Unexpected token <'') \<and>
   fst (fetchWithRetry Security (birdeye_security security_down) fresh) =
     Inl (Error ''Unexpected token <'') \<and>
   trace (snd (fetchWithRetry Security (birdeye_security security_down) fresh)) =
     [Request Security, Timeout 2000, Request Security, Timeout 4000, Request Security] \<and>
   clock (snd (fetchWithRetry Security (birdeye_security security_down) fresh)) = 6027"
proof -
  have n: "sent Security fresh = 0" by (simp add: sent_def fresh_def)
  have f1: "failure_of (snd (birdeye_security security_down 0)) = Some (Error ''ECONNRESET'')"
    by (simp add: failure_of_def sample_defs)
  have f2: "failure_of (snd (birdeye_security security_down (0 + 1))) =
              Some (Error ''HTTP error! status: 503, message: busy'')"
    by (simp add: failure_of_def sample_defs response_ok_def text_defs)
  have f3: "failure_of (snd (birdeye_security security_down (0 + 2))) = Some (Error ''Unexpected token <'')"
    by (simp add: failure_of_def sample_defs response_ok_def)
  have t: "fst (birdeye_security security_down k) = (if k = 0 then 7 else if k = 1 then 9 else 11)" for k
    by (simp add: sample_defs)
  have s0: "trace fresh = []" "clock fresh = 0" by (simp_all add: fresh_def)
  note run = fetchWithRetry_exhausted [of "birdeye_security security_down" Security fresh
      "Error ''ECONNRESET''" "Error ''HTTP error! status: 503, message: busy''"
      "Error ''Unexpected token <''", unfolded n, OF f1 f2 f3]
  have g2: "failure_of (snd (birdeye_security security_down 1)) =
              Some (Error ''HTTP error! status: 503, message: busy'')"
    by (simp add: failure_of_def sample_defs response_ok_def text_defs)
  have g3: "failure_of (snd (birdeye_security security_down 2)) = Some (Error ''Unexpected token <'')"
    by (simp add: failure_of_def sample_defs response_ok_def)
  have r1: "fst (fetchWithRetry Security (birdeye_security security_down) fresh) =
              Inl (Error ''Unexpected token <'')"
    using run by simp
  have r2: "trace (snd (fetchWithRetry Security (birdeye_security security_down) fresh)) =
              [Request Security, Timeout 2000, Request Security, Timeout 4000, Request Security]"
    using run by (simp add: s0)
  have r3: "clock (snd (fetchWithRetry Security (birdeye_security security_down) fresh)) = 6027"
    using run by (simp add: t s0)
  show ?thesis
    by (intro conjI f1 g2 g3 r1 r2 r3)
qed

text \<open>
  C5. The code does not do this. On a miss of both tiers \<open>fetchTokenTradeData\<close> calls
  \<open>fetch\<close> itself, once: when the first request is rejected it raises "No token
  trade data available" after that single request, although the second request would
  have been answered. \<open>fetchTokenSecurity\<close>, in the same situation, goes through
  \<open>fetchWithRetry\<close>, waits and succeeds at its second attempt.
\<close>

theorem fetchTokenTradeData_single_request:
  "vacant (''tokenTradeData_'' @ tokenAddress trade_flaky) (tradeCache fresh) \<and>
   snd (birdeye_trade trade_flaky 0) = Rejected ''ECONNRESET'' \<and>
   failure_of (snd (birdeye_trade trade_flaky 1)) = None \<and>
   fst (fetchTokenTradeData trade_flaky fresh) = Inl (Error ''No token trade data available'') \<and>
   trace (snd (fetchTokenTradeData trade_flaky fresh)) = [Request Trade] \<and>
   snd (birdeye_security security_flaky 0) = Rejected ''ECONNRESET'' \<and>
   fst (fetchTokenSecurity security_flaky fresh) = Inr sample_security \<and>
   trace (snd (fetchTokenSecurity security_flaky fresh)) =
     [Request Security, Timeout 2000, Request Security]"
  by (simp add: eval vacant_def failure_of_def)

section \<open>Properties of the holder aggregator\<close>













section \<open>Properties of the pagination\<close>

lemma sent_requested [simp]:
  "sent ep' (requested ep took s) = (if ep' = ep then Suc (sent ep' s) else sent ep' s)"
  by (simp add: sent_def requested_def)

lemma sent_holderCache [simp]: "sent ep (s\<lparr> holderCache := c \<rparr>) = sent ep s"
  by (simp add: sent_def)

lemma fetch_requested:
  "fetch ep service s = (snd (service (sent ep s)), requested ep (fst (service (sent ep s))) s)"
  by (simp add: fetch_def requested_def split: prod.splits)

lemma holder_pages_cap: "page > 2 \<Longrightarrow> holder_pages env page cur m s = (Inr m, s)"
  by (subst holder_pages.simps) simp

lemma holder_pages_stop:
  assumes "page \<le> 2" and "page_of (snd (helius env (sent Helius s) cur)) = No_more"
  shows "holder_pages env page cur m s =
           (Inr m, requested Helius (fst (helius env (sent Helius s) cur)) s)"
  using assms
  by (subst holder_pages.simps)
     (auto simp: fetch_requested page_of_def split: http.splits sum.splits option.splits if_splits)

lemma holder_pages_failed:
  assumes "page \<le> 2" and "page_of (snd (helius env (sent Helius s) cur)) = Failed"
  shows "\<exists>e. holder_pages env page cur m s =
           (Inl e, requested Helius (fst (helius env (sent Helius s) cur)) s)"
  using assms
  by (subst holder_pages.simps)
     (auto simp: fetch_requested page_of_def split: http.splits sum.splits option.splits if_splits)

lemma holder_pages_next:
  assumes "page \<le> 2" and "page_of (snd (helius env (sent Helius s) cur)) = Accounts accounts c"
  shows "holder_pages env page cur m s =
           holder_pages env (Suc page) c (add_page m accounts)
             (requested Helius (fst (helius env (sent Helius s) cur)) s)"
  using assms
  by (subst holder_pages.simps)
     (auto simp: fetch_requested page_of_def split: http.splits sum.splits option.splits if_splits)

lemma holder_pages_bound:
  "sent Helius (snd (holder_pages env page cur m s)) \<le> sent Helius s + (3 - page)"
proof (induction env page cur m s rule: holder_pages.induct)
  case (1 env page cur m s)
  show ?case
  proof (cases "page > 2")
    case True
    then show ?thesis by (simp add: holder_pages_cap)
  next
    case False
    then have le: "page \<le> 2" by simp
    let ?r = "snd (helius env (sent Helius s) cur)"
    let ?s1 = "requested Helius (fst (helius env (sent Helius s) cur)) s"
    show ?thesis
    proof (cases "page_of ?r")
      case Failed
      from holder_pages_failed [OF le Failed, of m] le show ?thesis by auto
    next
      case No_more
      from holder_pages_stop [OF le No_more, of m] le show ?thesis by auto
    next
      case (Accounts accounts c)
      obtain st tx d where r: "?r = Response st tx (Inr d)"
        and ta: "token_accounts d = Some accounts" and ne: "length accounts \<noteq> 0" and c: "c = cursor d"
        using Accounts by (auto simp: page_of_def split: http.splits sum.splits option.splits if_splits)
      have f: "fetch Helius (\<lambda>n. helius env n cur) s = (Response st tx (Inr d), ?s1)"
        using r by (simp add: fetch_requested)
      have "sent Helius (snd (holder_pages env (page + 1) (cursor d) (add_page m accounts) ?s1))
              \<le> sent Helius ?s1 + (3 - (page + 1))"
        using "1.IH" [OF False f [symmetric] refl refl ta ne] .
      with holder_pages_next [OF le Accounts, of m] le c show ?thesis by simp
    qed
  qed
qed

lemma holder_pages_holderCache:
  "holder_pages env page cur m (s\<lparr> holderCache := c \<rparr>) =
     (fst (holder_pages env page cur m s), (snd (holder_pages env page cur m s))\<lparr> holderCache := c \<rparr>)"
proof (induction env page cur m s rule: holder_pages.induct)
  case (1 env page cur m s)
  have rq: "requested Helius t (s\<lparr> holderCache := c \<rparr>) = (requested Helius t s)\<lparr> holderCache := c \<rparr>" for t
    by (simp add: requested_def)
  show ?case
  proof (cases "page > 2")
    case True
    then show ?thesis by (simp add: holder_pages_cap)
  next
    case False
    then have le: "page \<le> 2" by simp
    let ?r = "snd (helius env (sent Helius s) cur)"
    let ?s1 = "requested Helius (fst (helius env (sent Helius s) cur)) s"
    show ?thesis
    proof (cases "page_of ?r")
      case Failed
      then have F: "page_of (snd (helius env (sent Helius (s\<lparr> holderCache := c \<rparr>)) cur)) = Failed" by simp
      have "holder_pages env page cur m (s\<lparr> holderCache := c \<rparr>) = (fst (holder_pages env page cur m s), ?s1\<lparr> holderCache := c \<rparr>)"
        using le Failed
        by (subst holder_pages.simps, subst (2) holder_pages.simps)
          (auto simp: fetch_requested rq page_of_def split: http.splits sum.splits option.splits if_splits)
      moreover have "snd (holder_pages env page cur m s) = ?s1"
        using holder_pages_failed [OF le Failed, of m] by auto
      ultimately show ?thesis by simp
    next
      case No_more
      then have N: "page_of (snd (helius env (sent Helius (s\<lparr> holderCache := c \<rparr>)) cur)) = No_more" by simp
      show ?thesis
        by (simp add: holder_pages_stop [OF le No_more] holder_pages_stop [OF le N] rq)
    next
      case (Accounts accounts c')
      then have A: "page_of (snd (helius env (sent Helius (s\<lparr> holderCache := c \<rparr>)) cur)) = Accounts accounts c'" by simp
      obtain st tx d where r: "?r = Response st tx (Inr d)"
        and ta: "token_accounts d = Some accounts" and ne: "length accounts \<noteq> 0" and c': "c' = cursor d"
        using Accounts by (auto simp: page_of_def split: http.splits sum.splits option.splits if_splits)
      have f: "fetch Helius (\<lambda>n. helius env n cur) s = (Response st tx (Inr d), ?s1)"
        using r by (simp add: fetch_requested)
      note IH = "1.IH" [OF False f [symmetric] refl refl ta ne]
      show ?thesis
        using IH c'
        by (simp add: holder_pages_next [OF le Accounts] holder_pages_next [OF le A] rq)
    qed
  qed
qed

lemma fetchHolderList_hit:
  "\<not> holder_cache_miss env s \<Longrightarrow> sent ep (snd (fetchHolderList env s)) = sent ep s"
  by (auto simp: holder_cache_miss_def holder_key_def fetchHolderList_def Let_def
      split: prod.splits option.splits)

lemma fetchHolderList_miss:
  assumes "holder_cache_miss env s"
  shows "fst (fetchHolderList env s) =
           (case fst (holder_pages env 1 None [] s) of
              Inl e \<Rightarrow> Inl (Error ''Failed to fetch holder list from Helius.'')
            | Inr m \<Rightarrow> Inr (materialize m))"
    and "sent ep (snd (fetchHolderList env s)) = sent ep (snd (holder_pages env 1 None [] s))"
  using assms
  by (auto simp: holder_cache_miss_def holder_key_def fetchHolderList_def Let_def
      holder_pages_holderCache split: prod.splits option.splits sum.splits)

lemma holder_pages_no_page:
  assumes "page_of (snd (helius env (sent Helius s) None)) = No_more"
  shows "fst (holder_pages env 1 None [] s) = Inr []"
    and "sent Helius (snd (holder_pages env 1 None [] s)) = sent Helius s + 1"
  using holder_pages_stop [OF _ assms, of 1 "[]"] by simp_all

lemma holder_pages_one_page:
  assumes "page_of (snd (helius env (sent Helius s) None)) = Accounts a1 c1"
    and "page_of (snd (helius env (sent Helius s + 1) c1)) = No_more"
  shows "fst (holder_pages env 1 None [] s) = Inr (add_page [] a1)"
    and "sent Helius (snd (holder_pages env 1 None [] s)) = sent Helius s + 2"
proof -
  let ?s1 = "requested Helius (fst (helius env (sent Helius s) None)) s"
  have n: "sent Helius ?s1 = sent Helius s + 1" by simp
  have "holder_pages env 1 None [] s = holder_pages env (Suc 1) c1 (add_page [] a1) ?s1"
    by (rule holder_pages_next [OF _ assms(1)]) simp
  also have "\<dots> = (Inr (add_page [] a1), requested Helius (fst (helius env (sent Helius ?s1) c1)) ?s1)"
    using assms(2) by (intro holder_pages_stop) simp_all
  finally show "fst (holder_pages env 1 None [] s) = Inr (add_page [] a1)"
    and "sent Helius (snd (holder_pages env 1 None [] s)) = sent Helius s + 2"
    by simp_all
qed

lemma holder_pages_two_pages:
  assumes "page_of (snd (helius env (sent Helius s) None)) = Accounts a1 c1"
    and "page_of (snd (helius env (sent Helius s + 1) c1)) = Accounts a2 c2"
  shows "fst (holder_pages env 1 None [] s) = Inr (add_page (add_page [] a1) a2)"
    and "sent Helius (snd (holder_pages env 1 None [] s)) = sent Helius s + 2"
proof -
  let ?s1 = "requested Helius (fst (helius env (sent Helius s) None)) s"
  let ?s2 = "requested Helius (fst (helius env (sent Helius ?s1) c1)) ?s1"
  have n: "sent Helius ?s1 = sent Helius s + 1" by simp
  have "holder_pages env 1 None [] s = holder_pages env (Suc 1) c1 (add_page [] a1) ?s1"
    by (rule holder_pages_next [OF _ assms(1)]) simp
  also have "\<dots> = holder_pages env (Suc (Suc 1)) c2 (add_page (add_page [] a1) a2) ?s2"
    using assms(2) by (intro holder_pages_next) simp_all
  also have "\<dots> = (Inr (add_page (add_page [] a1) a2), ?s2)"
    by (rule holder_pages_cap) simp
  finally show "fst (holder_pages env 1 None [] s) = Inr (add_page (add_page [] a1) a2)"
    and "sent Helius (snd (holder_pages env 1 None [] s)) = sent Helius s + 2"
    by simp_all
qed

text \<open>
  C9. Whatever the upstream answers, \<open>fetchHolderList\<close> returns, and it sends at most
  two page requests. On a miss of the cache: a first answer with no holder ends the
  loop after one request; a second answer with no holder ends it after two; and when
  both answers have holders the loop stops at the cap of two pages, whatever further
  pages the upstream has. In each case the result is the accumulated map, materialized
  as a sequence of \<open>HolderData\<close>.
\<close>

theorem fetchHolderList_at_most_two_pages:
  "sent Helius (snd (fetchHolderList env s)) \<le> sent Helius s + 2 \<and>
   (holder_cache_miss env s \<and> page_of (snd (helius env (sent Helius s) None)) = No_more \<longrightarrow>
      fst (fetchHolderList env s) = Inr (materialize []) \<and>
      sent Helius (snd (fetchHolderList env s)) = sent Helius s + 1) \<and>
   (holder_cache_miss env s \<and> page_of (snd (helius env (sent Helius s) None)) = Accounts a1 c1 \<and>
    page_of (snd (helius env (sent Helius s + 1) c1)) = No_more \<longrightarrow>
      fst (fetchHolderList env s) = Inr (materialize (add_page [] a1)) \<and>
      sent Helius (snd (fetchHolderList env s)) = sent Helius s + 2) \<and>
   (holder_cache_miss env s \<and> page_of (snd (helius env (sent Helius s) None)) = Accounts a1 c1 \<and>
    page_of (snd (helius env (sent Helius s + 1) c1)) = Accounts a2 c2 \<longrightarrow>
      fst (fetchHolderList env s) = Inr (materialize (add_page (add_page [] a1) a2)) \<and>
      sent Helius (snd (fetchHolderList env s)) = sent Helius s + 2)"
proof -
  have bound: "sent Helius (snd (fetchHolderList env s)) \<le> sent Helius s + 2"
  proof (cases "holder_cache_miss env s")
    case True
    with holder_pages_bound [of env 1 None "[]" s] show ?thesis
      by (simp add: fetchHolderList_miss(2))
  next
    case False
    then show ?thesis by (simp add: fetchHolderList_hit)
  qed
  have none: "fst (fetchHolderList env s) = Inr (materialize []) \<and>
      sent Helius (snd (fetchHolderList env s)) = sent Helius s + 1"
    if "holder_cache_miss env s" and "page_of (snd (helius env (sent Helius s) None)) = No_more"
    unfolding fetchHolderList_miss [OF that(1)] holder_pages_no_page [OF that(2)] by simp
  have one: "fst (fetchHolderList env s) = Inr (materialize (add_page [] a1)) \<and>
      sent Helius (snd (fetchHolderList env s)) = sent Helius s + 2"
    if "holder_cache_miss env s" and "page_of (snd (helius env (sent Helius s) None)) = Accounts a1 c1"
      and "page_of (snd (helius env (sent Helius s + 1) c1)) = No_more"
    unfolding fetchHolderList_miss [OF that(1)] holder_pages_one_page [OF that(2,3)] by simp
  have two: "fst (fetchHolderList env s) = Inr (materialize (add_page (add_page [] a1) a2)) \<and>
      sent Helius (snd (fetchHolderList env s)) = sent Helius s + 2"
    if "holder_cache_miss env s" and "page_of (snd (helius env (sent Helius s) None)) = Accounts a1 c1"
      and "page_of (snd (helius env (sent Helius s + 1) c1)) = Accounts a2 c2"
    unfolding fetchHolderList_miss [OF that(1)] holder_pages_two_pages [OF that(2,3)] by simp
  from bound none one two show ?thesis by blast
qed

text \<open>
  Three upstreams: one that has a third page after two pages with holders, one whose
  second answer has no list, and one whose first answer is an empty list.
\<close>

theorem fetchHolderList_at_most_two_pages_witness:
  "holder_cache_miss healthy fresh \<and>
   fst (fetchHolderList healthy fresh) = Inr sample_holders \<and>
   sent Helius (snd (fetchHolderList healthy fresh)) = 2 \<and>
   page_of (snd (helius healthy 2 (Some ''c2''))) =
     Accounts [\<lparr> owner = ''addr5'', amount = 1000 \<rparr>] (Some ''c3'') \<and>
   holder_cache_miss helius_one_page fresh \<and>
   fst (fetchHolderList helius_one_page fresh) =
     Inr [\<lparr> address = ''addr1'', balance = 11 / 2 \<rparr>, \<lparr> address = ''addr2'', balance = 2 \<rparr>] \<and>
   sent Helius (snd (fetchHolderList helius_one_page fresh)) = 2 \<and>
   holder_cache_miss helius_empty fresh \<and>
   fst (fetchHolderList helius_empty fresh) = Inr [] \<and>
   sent Helius (snd (fetchHolderList helius_empty fresh)) = 1"
proof -
  let ?a1 = "[\<lparr> owner = ''addr1'', amount = 5 \<rparr>, \<lparr> owner = ''addr2'', amount = 2 \<rparr>,
              \<lparr> owner = ''addr1'', amount = 1 / 2 \<rparr>]"
  let ?a2 = "[\<lparr> owner = ''addr3'', amount = 5 / 2 \<rparr>, \<lparr> owner = ''addr4'', amount = 1003 / 400 \<rparr>]"
  have n: "sent Helius fresh = 0" by (simp add: sent_def fresh_def)
  have miss: "holder_cache_miss healthy fresh" "holder_cache_miss helius_one_page fresh"
    "holder_cache_miss helius_empty fresh"
    by (simp_all add: holder_cache_miss_def holder_key_def cache_defs sample_defs more_sample_defs)
  have h1: "page_of (snd (helius healthy 0 None)) = Accounts ?a1 (Some ''c1'')"
    and h2: "page_of (snd (helius healthy (0 + 1) (Some ''c1''))) = Accounts ?a2 (Some ''c2'')"
    and h3: "page_of (snd (helius healthy 2 (Some ''c2''))) =
               Accounts [\<lparr> owner = ''addr5'', amount = 1000 \<rparr>] (Some ''c3'')"
    by (simp_all add: page_of_def sample_defs)
  have o1: "page_of (snd (helius helius_one_page 0 None)) = Accounts ?a1 (Some ''c1'')"
    and o2: "page_of (snd (helius helius_one_page (0 + 1) (Some ''c1''))) = No_more"
    by (simp_all add: page_of_def sample_defs more_sample_defs)
  have e1: "page_of (snd (helius helius_empty 0 None)) = No_more"
    by (simp add: page_of_def sample_defs more_sample_defs)
  have m2: "materialize (add_page (add_page [] ?a1) ?a2) = sample_holders"
    by (simp add: materialize_def add_page_def add_account_def Map_get_def sample_holders_def)
  have m1: "materialize (add_page [] ?a1) =
              [\<lparr> address = ''addr1'', balance = 11 / 2 \<rparr>, \<lparr> address = ''addr2'', balance = 2 \<rparr>]"
    by (simp add: materialize_def add_page_def add_account_def Map_get_def)
  have m0: "materialize [] = []" by (simp add: materialize_def)
  from fetchHolderList_at_most_two_pages [of healthy fresh ?a1 "Some ''c1''" ?a2 "Some ''c2''", unfolded n]
    miss(1) h1 h2
  have two: "fst (fetchHolderList healthy fresh) = Inr (materialize (add_page (add_page [] ?a1) ?a2)) \<and>
      sent Helius (snd (fetchHolderList healthy fresh)) = 0 + 2"
    by blast
  from fetchHolderList_at_most_two_pages [of helius_one_page fresh ?a1 "Some ''c1''", unfolded n]
    miss(2) o1 o2
  have one: "fst (fetchHolderList helius_one_page fresh) = Inr (materialize (add_page [] ?a1)) \<and>
      sent Helius (snd (fetchHolderList helius_one_page fresh)) = 0 + 2"
    by blast
  from fetchHolderList_at_most_two_pages [of helius_empty fresh, unfolded n] miss(3) e1
  have none: "fst (fetchHolderList helius_empty fresh) = Inr (materialize []) \<and>
      sent Helius (snd (fetchHolderList helius_empty fresh)) = 0 + 1"
    by blast
  have two': "fst (fetchHolderList healthy fresh) = Inr sample_holders"
    "sent Helius (snd (fetchHolderList healthy fresh)) = 2"
    using two by (simp_all add: m2)
  have one': "fst (fetchHolderList helius_one_page fresh) =
       Inr [\<lparr> address = ''addr1'', balance = 11 / 2 \<rparr>, \<lparr> address = ''addr2'', balance = 2 \<rparr>]"
    "sent Helius (snd (fetchHolderList helius_one_page fresh)) = 2"
    using one by (simp_all add: m1)
  have none': "fst (fetchHolderList helius_empty fresh) = Inr []"
    "sent Helius (snd (fetchHolderList helius_empty fresh)) = 1"
    using none by (simp_all add: m0)
  show ?thesis
    by (intro conjI miss two' one' none' h3)
qed

section \<open>Properties of the analytics\<close>

lemma run_healthy_holders: "fst (fetchHolderList healthy fresh) = Inr sample_holders"
  by (simp add: eval)

lemma run_helius_down_holders:
  "fst (fetchHolderList helius_down fresh) = Inl (Error ''Failed to fetch holder list from Helius.'')"
  by (simp add: eval)

lemma scaled_nearest:
  assumes "0 < x"
  shows "\<bar>of_nat (scaled 2 x) / 100 - x\<bar> \<le> 1 / 200"
proof -
  let ?y = "x * 100 + 1 / 2"
  have pos: "0 \<le> \<lfloor>?y\<rfloor>" using assms by simp
  have s: "of_nat (scaled 2 x) = (of_int \<lfloor>?y\<rfloor> :: rat)"
    using assms pos by (simp add: scaled_def abs_of_pos)
  have up: "of_int \<lfloor>?y\<rfloor> \<le> ?y" by (rule of_int_floor_le)
  have lo: "?y < of_int \<lfloor>?y\<rfloor> + 1" by linarith
  show ?thesis
    unfolding s using up lo by linarith
qed

lemma toFixed_positive:
  "toFixed 2 (Fin x) =
     (if x < 0 then ''-'' else '''')
     @ show_nat (scaled 2 x div 100) @ ''.'' @ frac_digits 2 (scaled 2 x mod 100)"
  by (simp add: toFixed.simps Let_def)

lemma filterHighValueHolders_success:
  assumes "fst (fetchHolderList env s) = Inr hs"
  shows "fst (filterHighValueHolders env s td) =
           Inr (map (\<lambda>h. \<lparr> holderAddress = address h, balanceUsd = toFixed 2 (Fin (balance h * price td)) \<rparr>)
                  (filter (\<lambda>h. 5 < balance h * price td) hs))"
  using assms
  by (cases "fetchHolderList env s") (simp add: filterHighValueHolders_def Let_def)

text \<open>
  C7. \<open>filterHighValueHolders\<close> keeps exactly the holders whose balance times the
  current price is strictly greater than 5, in the order of the holder list, so that a
  product of exactly 5 is excluded; each one is returned as its address and the product
  in \<open>toFixed(2)\<close>, the decimal text of the product rounded to the nearest hundredth.
\<close>

theorem filterHighValueHolders_threshold:
  "(fst (fetchHolderList env s) = Inr hs \<longrightarrow>
      fst (filterHighValueHolders env s td) =
        Inr (map (\<lambda>h. \<lparr> holderAddress = address h,
                          balanceUsd = toFixed 2 (Fin (balance h * price td)) \<rparr>)
               (filter (\<lambda>h. 5 < balance h * price td) hs))) \<and>
   (0 < x \<longrightarrow>
      toFixed 2 (Fin x) = show_nat (scaled 2 x div 100) @ ''.'' @ frac_digits 2 (scaled 2 x mod 100) \<and>
      \<bar>of_nat (scaled 2 x) / 100 - x\<bar> \<le> 1 / 200)"
proof -
  have text_of: "toFixed 2 (Fin x) = show_nat (scaled 2 x div 100) @ ''.'' @ frac_digits 2 (scaled 2 x mod 100)"
    if "0 < x"
    using that by (simp only: toFixed_positive) simp
  from filterHighValueHolders_success [of env s hs td] scaled_nearest [of x] text_of
  show ?thesis by blast
qed

text \<open>
  At a price of 2 the sample holders are worth 11, 4, exactly 5 and 5.015: the first and
  the last are kept, and 5.015 is shown as 5.02.
\<close>

theorem filterHighValueHolders_threshold_witness:
  "fst (fetchHolderList healthy fresh) = Inr sample_holders \<and>
   price sample_trade = 2 \<and>
   fst (filterHighValueHolders healthy fresh sample_trade) =
     Inr [\<lparr> holderAddress = ''addr1'', balanceUsd = ''11.00'' \<rparr>,
          \<lparr> holderAddress = ''addr4'', balanceUsd = ''5.02'' \<rparr>] \<and>
   balance (sample_holders ! 2) * price sample_trade = 5 \<and>
   balance (sample_holders ! 3) * price sample_trade = 1003 / 200 \<and>
   (0 :: rat) < 1003 / 200 \<and>
   toFixed 2 (Fin (1003 / 200)) = ''5.02'' \<and>
   \<bar>of_nat (scaled 2 (1003 / 200)) / 100 - 1003 / 200\<bar> \<le> (1 / 200 :: rat)"
proof -
  have p: "price sample_trade = 2" by (simp add: sample_defs)
  have b: "balance (sample_holders ! 2) * price sample_trade = 5"
    "balance (sample_holders ! 3) * price sample_trade = 1003 / 200"
    by (simp_all add: sample_defs more_sample_defs)
  have pos: "(0 :: rat) < 1003 / 200" by simp
  note th = filterHighValueHolders_threshold [of healthy fresh sample_holders sample_trade "1003 / 200"]
  have kept: "fst (filterHighValueHolders healthy fresh sample_trade) =
     Inr [\<lparr> holderAddress = ''addr1'', balanceUsd = ''11.00'' \<rparr>,
          \<lparr> holderAddress = ''addr4'', balanceUsd = ''5.02'' \<rparr>]"
    using th run_healthy_holders by (simp add: sample_defs more_sample_defs text_defs)
  have shown: "toFixed 2 (Fin (1003 / 200)) = ''5.02''"
    using th pos by (simp add: text_defs)
  have near: "\<bar>of_nat (scaled 2 (1003 / 200)) / 100 - 1003 / 200\<bar> \<le> (1 / 200 :: rat)"
    using th pos by blast
  show ?thesis
    by (intro conjI run_healthy_holders p kept b pos shown near)
qed

lemma countHighSupplyHolders_cases:
  "fst (countHighSupplyHolders env s sd) =
     (case fst (fetchHolderList env s) of
        Inl e \<Rightarrow> 0
      | Inr hs \<Rightarrow>
          length (filter (\<lambda>h. isGreaterThan
                    (dividedBy (Fin (balance h))
                       (plus_bn (BigNumber env (ownerBalance sd)) (BigNumber env (creatorBalance sd))))
                    (Fin (2 / 100))) hs))"
  by (cases "fetchHolderList env s")
     (simp add: countHighSupplyHolders_def Let_def split: sum.splits)

lemma share_finite:
  "a + b \<noteq> 0 \<Longrightarrow>
   isGreaterThan (dividedBy (Fin x) (plus_bn (Fin a) (Fin b))) (Fin (2 / 100)) =
     (2 / 100 < round_half_up 20 (x / (a + b)))"
  by (simp add: DECIMAL_PLACES_def)

lemma share_of_nothing:
  "a + b = 0 \<Longrightarrow>
   isGreaterThan (dividedBy (Fin x) (plus_bn (Fin a) (Fin b))) (Fin (2 / 100)) = (0 < x)"
  by (simp add: inf_of_sign_def)

text \<open>
  C10, as the code has it. \<open>countHighSupplyHolders\<close> returns a number whatever
  happens: 0 when the holder-list fetch fails, and otherwise the number of holders for
  which \<open>balance.dividedBy(totalSupply).isGreaterThan(0.02)\<close> holds, where the total
  supply is the sum of owner and creator balance. The division is the one of
  bignumber.js: it does not raise, and it rounds the quotient to 20 decimal places, a
  tie going away from zero. For finite balances with a non-zero sum a holder counts
  when the rounded quotient is greater than 0.02, which is when the quotient itself is
  at least 0.020000000000000000005; with a sum of 0 every positive balance counts.
\<close>

theorem countHighSupplyHolders_never_raises:
  "(fst (fetchHolderList env s) = Inl e \<longrightarrow> fst (countHighSupplyHolders env s sd) = 0) \<and>
   (fst (fetchHolderList env s) = Inr hs \<longrightarrow>
      fst (countHighSupplyHolders env s sd) =
        length (filter (\<lambda>h. isGreaterThan
                  (dividedBy (Fin (balance h))
                     (plus_bn (BigNumber env (ownerBalance sd)) (BigNumber env (creatorBalance sd))))
                  (Fin (2 / 100))) hs)) \<and>
   (fst (fetchHolderList env s) = Inr hs \<and> BigNumber env (ownerBalance sd) = Fin a \<and>
    BigNumber env (creatorBalance sd) = Fin b \<and> a + b \<noteq> 0 \<longrightarrow>
      fst (countHighSupplyHolders env s sd) =
        length (filter (\<lambda>h. 2 / 100 < round_half_up 20 (balance h / (a + b))) hs) \<and>
      fst (countHighSupplyHolders env s sd) =
        length (filter (\<lambda>h. 2 / 100 + 5 / 10 ^ 21 \<le> balance h / (a + b)) hs)) \<and>
   (fst (fetchHolderList env s) = Inr hs \<and> BigNumber env (ownerBalance sd) = Fin a \<and>
    BigNumber env (creatorBalance sd) = Fin b \<and> a + b = 0 \<longrightarrow>
      fst (countHighSupplyHolders env s sd) = length (filter (\<lambda>h. 0 < balance h) hs))"
proof -
  have failed: "fst (countHighSupplyHolders env s sd) = 0" if "fst (fetchHolderList env s) = Inl e"
    by (simp only: countHighSupplyHolders_cases that sum.case)
  have counted: "fst (countHighSupplyHolders env s sd) =
        length (filter (\<lambda>h. isGreaterThan
                  (dividedBy (Fin (balance h))
                     (plus_bn (BigNumber env (ownerBalance sd)) (BigNumber env (creatorBalance sd))))
                  (Fin (2 / 100))) hs)"
    if "fst (fetchHolderList env s) = Inr hs"
    by (simp only: countHighSupplyHolders_cases that sum.case)
  have rounded: "fst (countHighSupplyHolders env s sd) =
        length (filter (\<lambda>h. 2 / 100 < round_half_up 20 (balance h / (a + b))) hs)"
    if "fst (fetchHolderList env s) = Inr hs" and "BigNumber env (ownerBalance sd) = Fin a"
      and "BigNumber env (creatorBalance sd) = Fin b" and "a + b \<noteq> 0"
    by (simp only: counted [OF that(1)] that(2,3) share_finite [OF that(4)])
  have reached: "fst (countHighSupplyHolders env s sd) =
        length (filter (\<lambda>h. 2 / 100 + 5 / 10 ^ 21 \<le> balance h / (a + b)) hs)"
    if "fst (fetchHolderList env s) = Inr hs" and "BigNumber env (ownerBalance sd) = Fin a"
      and "BigNumber env (creatorBalance sd) = Fin b" and "a + b \<noteq> 0"
    using rounded [OF that] by (simp only: exceeds_after_rounding)
  have without_sum: "fst (countHighSupplyHolders env s sd) = length (filter (\<lambda>h. 0 < balance h) hs)"
    if "fst (fetchHolderList env s) = Inr hs" and "BigNumber env (ownerBalance sd) = Fin a"
      and "BigNumber env (creatorBalance sd) = Fin b" and "a + b = 0"
    by (simp only: counted [OF that(1)] that(2,3) share_of_nothing [OF that(4)])
  show ?thesis
    by (intro conjI impI; (elim conjE)?; (rule failed counted rounded reached without_sum; assumption))
qed

text \<open>
  With owner balance 100 and creator balance 50 one sample holder has more than 2 percent
  of 150; with both balances 0 all four count; with Helius down the count is 0.
\<close>

theorem countHighSupplyHolders_never_raises_witness:
  "fst (fetchHolderList healthy fresh) = Inr sample_holders \<and>
   BigNumber healthy (ownerBalance sample_security) = Fin 100 \<and>
   BigNumber healthy (creatorBalance sample_security) = Fin 50 \<and>
   fst (countHighSupplyHolders healthy fresh sample_security) = 1 \<and>
   BigNumber healthy ''0'' = Fin 0 \<and>
   fst (countHighSupplyHolders healthy fresh
          (sample_security \<lparr> ownerBalance := ''0'', creatorBalance := ''0'' \<rparr>)) = 4 \<and>
   fst (fetchHolderList helius_down fresh) = Inl (Error ''Failed to fetch holder list from Helius.'') \<and>
   fst (countHighSupplyHolders helius_down fresh sample_security) = 0"
proof -
  have o: "BigNumber healthy (ownerBalance sample_security) = Fin 100"
    and c: "BigNumber healthy (creatorBalance sample_security) = Fin 50"
    and z: "BigNumber healthy ''0'' = Fin 0"
    by (simp_all add: sample_defs)
  have one: "fst (countHighSupplyHolders healthy fresh sample_security) = 1"
    using countHighSupplyHolders_never_raises [where env = healthy and s = fresh and hs = sample_holders
        and sd = sample_security and a = 100 and b = 50]
      run_healthy_holders o c
    by (simp add: more_sample_defs)
  have four: "fst (countHighSupplyHolders healthy fresh
          (sample_security \<lparr> ownerBalance := ''0'', creatorBalance := ''0'' \<rparr>)) = 4"
    using countHighSupplyHolders_never_raises [where env = healthy and s = fresh and hs = sample_holders
        and sd = "sample_security \<lparr> ownerBalance := ''0'', creatorBalance := ''0'' \<rparr>" and a = 0 and b = 0]
      run_healthy_holders z
    by (simp add: more_sample_defs)
  have zero: "fst (countHighSupplyHolders helius_down fresh sample_security) = 0"
    using countHighSupplyHolders_never_raises [where env = helius_down and s = fresh
        and e = "Error ''Failed to fetch holder list from Helius.''" and sd = sample_security]
      run_helius_down_holders
    by simp
  show ?thesis
    by (intro conjI run_healthy_holders o c one z four run_helius_down_holders zero)
qed

text \<open>
  The claim as stated, with the quotient itself compared with 0.02, fails at the last
  place that the library keeps. With owner balance 100 and creator balance
  174.99999999999999999999 the sample holder of 5.5 has a share of
  0.0200000000000000000000007..., which is greater than 0.02, and is not counted: the
  quotient is rounded to 0.02 before it is compared.
\<close>

theorem countHighSupplyHolders_rounds_the_share:
  "fst (fetchHolderList healthy fresh) = Inr sample_holders \<and>
   BigNumber healthy (ownerBalance hairline_security) = Fin 100 \<and>
   BigNumber healthy (creatorBalance hairline_security) =
     Fin (17499999999999999999999 / 100000000000000000000) \<and>
   length (filter (\<lambda>h. 2 / 100 < balance h / (100 + 17499999999999999999999 / 100000000000000000000))
             sample_holders) = 1 \<and>
   fst (countHighSupplyHolders healthy fresh hairline_security) = 0"
proof -
  have o: "BigNumber healthy (ownerBalance hairline_security) = Fin 100"
    and c: "BigNumber healthy (creatorBalance hairline_security) =
              Fin (17499999999999999999999 / 100000000000000000000)"
    by (simp_all add: sample_defs hairline_security_def)
  have exact: "length (filter (\<lambda>h. 2 / 100 < balance h / (100 + 17499999999999999999999 / 100000000000000000000))
             sample_holders) = 1"
    by (simp add: sample_holders_def)
  have "fst (countHighSupplyHolders healthy fresh hairline_security) =
          length (filter (\<lambda>h. isGreaterThan
                    (dividedBy (Fin (balance h))
                       (plus_bn (BigNumber healthy (ownerBalance hairline_security))
                          (BigNumber healthy (creatorBalance hairline_security))))
                    (Fin (2 / 100))) sample_holders)"
    by (simp only: countHighSupplyHolders_cases run_healthy_holders sum.case)
  also have "\<dots> = 0"
    unfolding o c
    by (simp add: round_half_up_def DECIMAL_PLACES_def scaled_def floor_rat_numeral sample_holders_def)
  finally show ?thesis
    by (intro conjI run_healthy_holders o c exact)
qed

section \<open>Properties of the composite report\<close>

lemma fetchDexScreenerData_unusable:
  "dex_cache_miss env s \<Longrightarrow> dex_unusable (snd (dexscreener env (sent DexScreener s))) \<Longrightarrow>
   fst (fetchDexScreenerData env s) = no_dex_data"
  by (auto simp: dex_cache_miss_def dex_unusable_def fetchDexScreenerData_def Let_def fetch_def
      sent_def split: prod.splits option.splits http.splits sum.splits)

lemma getProcessedTokenData_security:
  "fst (fetchTokenSecurity env s) = Inl e \<Longrightarrow> fst (getProcessedTokenData env s) = Inl e"
  by (cases "fetchTokenSecurity env s") (simp add: getProcessedTokenData_def)

lemma getProcessedTokenData_trade:
  "fetchTokenSecurity env s = (Inr sec, s1) \<Longrightarrow> fst (fetchTokenTradeData env s1) = Inl e \<Longrightarrow>
   fst (getProcessedTokenData env s) = Inl e"
  by (cases "fetchTokenTradeData env s1") (simp add: getProcessedTokenData_def)

lemma filterHighValueHolders_failure:
  "fst (fetchHolderList env s) = Inl e \<Longrightarrow> fst (filterHighValueHolders env s td) = Inl e"
  by (cases "fetchHolderList env s") (simp add: filterHighValueHolders_def)

lemma getProcessedTokenData_holders:
  assumes "fetchTokenSecurity env s = (Inr sec, s1)" and "fetchTokenTradeData env s1 = (Inr td, s2)"
    and "fst (fetchHolderList env (snd (fetchDexScreenerData env s2))) = Inl e"
  shows "fst (getProcessedTokenData env s) = Inl e"
proof -
  obtain dex s3 where d: "fetchDexScreenerData env s2 = (dex, s3)" by (cases "fetchDexScreenerData env s2")
  with assms(3) have "fst (filterHighValueHolders env s3 td) = Inl e"
    by (simp add: filterHighValueHolders_failure)
  then obtain s4 where "filterHighValueHolders env s3 td = (Inl e, s4)"
    by (cases "filterHighValueHolders env s3 td") simp
  with assms(1,2) d show ?thesis
    by (simp add: getProcessedTokenData_def Let_def)
qed

lemma getProcessedTokenData_composite:
  assumes "fetchTokenSecurity env s = (Inr sec, s1)" and "fetchTokenTradeData env s1 = (Inr td, s2)"
    and "fst (fetchHolderList env (snd (fetchDexScreenerData env s2))) = Inr hs"
  shows "fst (getProcessedTokenData env s) =
           Inr \<lparr> security = sec,
                 tradeData = td,
                 holderDistributionTrend = analyzeHolderDistribution td,
                 highValueHolders =
                   map (\<lambda>h. \<lparr> holderAddress = address h,
                                balanceUsd = toFixed 2 (Fin (balance h * price td)) \<rparr>)
                     (filter (\<lambda>h. 5 < balance h * price td) hs),
                 recentTrades = checkRecentTrades td,
                 highSupplyHoldersCount =
                   fst (countHighSupplyHolders env
                          (snd (filterHighValueHolders env (snd (fetchDexScreenerData env s2)) td)) sec),
                 dexScreenerData = fst (fetchDexScreenerData env s2),
                 isDexScreenerListed = (pairs (fst (fetchDexScreenerData env s2)) \<noteq> []),
                 isDexScreenerPaid =
                   list_ex (\<lambda>pair. case boosts_active pair of None \<Rightarrow> False | Some a \<Rightarrow> a > 0)
                     (pairs (fst (fetchDexScreenerData env s2))) \<rparr>"
proof -
  obtain dex s3 where d: "fetchDexScreenerData env s2 = (dex, s3)" by (cases "fetchDexScreenerData env s2")
  obtain r s4 where f: "filterHighValueHolders env s3 td = (r, s4)"
    by (cases "filterHighValueHolders env s3 td")
  from assms(3) d have "fst (fetchHolderList env s3) = Inr hs" by simp
  from filterHighValueHolders_success [OF this, of td] f
  have r: "r = Inr (map (\<lambda>h. \<lparr> holderAddress = address h,
                                 balanceUsd = toFixed 2 (Fin (balance h * price td)) \<rparr>)
                      (filter (\<lambda>h. 5 < balance h * price td) hs))"
    by simp
  obtain cnt s5 where c: "countHighSupplyHolders env s4 sec = (cnt, s5)"
    by (cases "countHighSupplyHolders env s4 sec")
  from assms(1,2) d f r c show ?thesis
    by (simp add: getProcessedTokenData_def Let_def)
qed

lemma run_security_down:
  "fst (fetchTokenSecurity security_down fresh) = Inl (Error ''Unexpected token <'')"
  by (simp add: eval)

lemma run_security_down_report:
  "fst (getProcessedTokenData security_down fresh) = Inl (Error ''Unexpected token <'')"
  by (simp add: eval)

lemma run_trade_flaky_security:
  "fst (fetchTokenSecurity trade_flaky fresh) = Inr sample_security"
  by (simp add: eval)

lemma run_trade_flaky_trade:
  "fst (fetchTokenTradeData trade_flaky (snd (fetchTokenSecurity trade_flaky fresh))) =
     Inl (Error ''No token trade data available'')"
  by (simp add: eval)

lemma run_helius_down_security:
  "fst (fetchTokenSecurity helius_down fresh) = Inr sample_security"
  by (simp add: eval)

lemma run_helius_down_trade:
  "fst (fetchTokenTradeData helius_down (snd (fetchTokenSecurity helius_down fresh))) = Inr sample_trade"
  by (simp add: eval)

lemma run_helius_down_after_dex:
  "fst (fetchHolderList helius_down
          (snd (fetchDexScreenerData helius_down
                  (snd (fetchTokenTradeData helius_down (snd (fetchTokenSecurity helius_down fresh)))))))
     = Inl (Error ''Failed to fetch holder list from Helius.'')"
  by (simp add: eval)

lemma run_dex_down_security:
  "fst (fetchTokenSecurity dex_down fresh) = Inr sample_security"
  by (simp add: eval)

lemma run_dex_down_trade:
  "fst (fetchTokenTradeData dex_down (snd (fetchTokenSecurity dex_down fresh))) = Inr sample_trade"
  by (simp add: eval)

lemma run_dex_down_miss:
  "dex_cache_miss dex_down (snd (fetchTokenTradeData dex_down (snd (fetchTokenSecurity dex_down fresh))))"
  by (simp add: dex_cache_miss_def eval)

lemma run_dex_down_answer:
  "snd (dexscreener dex_down n) = Rejected ''ECONNRESET''"
  by (simp add: sample_defs)

lemma run_dex_down_after_dex:
  "fst (fetchHolderList dex_down
          (snd (fetchDexScreenerData dex_down
                  (snd (fetchTokenTradeData dex_down (snd (fetchTokenSecurity dex_down fresh)))))))
     = Inr sample_holders"
  by (simp add: eval)

lemma run_dex_down: "fst (getProcessedTokenData dex_down fresh) = Inr dex_down_report"
  by (simp add: eval)

lemma run_dex_down_trace:
  "trace (snd (getProcessedTokenData dex_down fresh)) =
     [Request Security, Request Trade, Request DexScreener, Request Helius, Request Helius]"
  by (simp add: eval)

lemma run_healthy: "fst (getProcessedTokenData healthy fresh) = Inr healthy_report"
  by (simp add: eval)

lemma run_healthy_text: "formatTokenData healthy healthy_report = Inr healthy_text"
  by (simp add: format_defs healthy_text_def sample_defs more_sample_defs text_defs)

lemma run_no_liquidity: "fst (getProcessedTokenData dex_no_liquidity fresh) = Inr no_liquidity_report"
  by (simp add: eval dex_no_liquidity_def no_liquidity_report_def)

lemma run_no_liquidity_text: "formatTokenData dex_no_liquidity no_liquidity_report = Inl (TypeError ''usd'')"
  by (simp add: format_defs dex_no_liquidity_def no_liquidity_report_def sample_defs more_sample_defs)

text \<open>
  C1, as the code has it. A failure of the security fetch, of the trade fetch, or of
  the holder-list fetch made for the high-value holders propagates out of
  \<open>getProcessedTokenData\<close>, and no composite is produced. A failure of the DexScreener
  request does not: \<open>fetchDexScreenerData\<close> catches it and answers with the fixed
  data without pairs. When the three other fetches succeed the composite is produced,
  and each of its fields is determined: the security and trade data as fetched, the
  trend of \<open>analyzeHolderDistribution\<close>, the high-value holders filtered from the
  holder list, the answer of \<open>checkRecentTrades\<close>, the count that
  \<open>countHighSupplyHolders\<close> returns, the data \<open>fetchDexScreenerData\<close> returned,
  listed when it has a pair and paid when a pair has active boosts.
\<close>

theorem getProcessedTokenData_propagation:
  "(fst (fetchTokenSecurity env s) = Inl e \<longrightarrow> fst (getProcessedTokenData env s) = Inl e) \<and>
   (fetchTokenSecurity env s = (Inr sec, s1) \<and> fst (fetchTokenTradeData env s1) = Inl e \<longrightarrow>
      fst (getProcessedTokenData env s) = Inl e) \<and>
   (fetchTokenSecurity env s = (Inr sec, s1) \<and> fetchTokenTradeData env s1 = (Inr td, s2) \<and>
    fst (fetchHolderList env (snd (fetchDexScreenerData env s2))) = Inl e \<longrightarrow>
      fst (getProcessedTokenData env s) = Inl e) \<and>
   (dex_cache_miss env s2 \<and> dex_unusable (snd (dexscreener env (sent DexScreener s2))) \<longrightarrow>
      fst (fetchDexScreenerData env s2) = no_dex_data) \<and>
   (fetchTokenSecurity env s = (Inr sec, s1) \<and> fetchTokenTradeData env s1 = (Inr td, s2) \<and>
    fst (fetchHolderList env (snd (fetchDexScreenerData env s2))) = Inr hs \<longrightarrow>
      fst (getProcessedTokenData env s) =
           Inr \<lparr> security = sec,
                 tradeData = td,
                 holderDistributionTrend = analyzeHolderDistribution td,
                 highValueHolders =
                   map (\<lambda>h. \<lparr> holderAddress = address h,
                                balanceUsd = toFixed 2 (Fin (balance h * price td)) \<rparr>)
                     (filter (\<lambda>h. 5 < balance h * price td) hs),
                 recentTrades = checkRecentTrades td,
                 highSupplyHoldersCount =
                   fst (countHighSupplyHolders env
                          (snd (filterHighValueHolders env (snd (fetchDexScreenerData env s2)) td)) sec),
                 dexScreenerData = fst (fetchDexScreenerData env s2),
                 isDexScreenerListed = (pairs (fst (fetchDexScreenerData env s2)) \<noteq> []),
                 isDexScreenerPaid =
                   list_ex (\<lambda>pair. case boosts_active pair of None \<Rightarrow> False | Some a \<Rightarrow> a > 0)
                     (pairs (fst (fetchDexScreenerData env s2))) \<rparr>)"
  using getProcessedTokenData_security [of env s e] getProcessedTokenData_trade [of env s sec s1 e]
    getProcessedTokenData_holders [of env s sec s1 td s2 e]
    fetchDexScreenerData_unusable [of env s2]
    getProcessedTokenData_composite [of env s sec s1 td s2 hs]
  by blast

text \<open>
  One environment for each case: the security service failing three times, the trade
  service rejecting its first request, Helius down, and DexScreener down.
\<close>

theorem getProcessedTokenData_propagation_witness:
  "fst (fetchTokenSecurity security_down fresh) = Inl (Error ''Unexpected token <'') \<and>
   fst (getProcessedTokenData security_down fresh) = Inl (Error ''Unexpected token <'') \<and>
   fst (fetchTokenSecurity trade_flaky fresh) = Inr sample_security \<and>
   fst (fetchTokenTradeData trade_flaky (snd (fetchTokenSecurity trade_flaky fresh))) =
     Inl (Error ''No token trade data available'') \<and>
   fst (getProcessedTokenData trade_flaky fresh) = Inl (Error ''No token trade data available'') \<and>
   fst (fetchTokenSecurity helius_down fresh) = Inr sample_security \<and>
   fst (fetchTokenTradeData helius_down (snd (fetchTokenSecurity helius_down fresh))) = Inr sample_trade \<and>
   fst (fetchHolderList helius_down
          (snd (fetchDexScreenerData helius_down
                  (snd (fetchTokenTradeData helius_down (snd (fetchTokenSecurity helius_down fresh)))))))
     = Inl (Error ''Failed to fetch holder list from Helius.'') \<and>
   fst (getProcessedTokenData helius_down fresh) =
     Inl (Error ''Failed to fetch holder list from Helius.'') \<and>
   dex_cache_miss dex_down (snd (fetchTokenTradeData dex_down (snd (fetchTokenSecurity dex_down fresh)))) \<and>
   dex_unusable (Rejected ''ECONNRESET'') \<and>
   fst (fetchDexScreenerData dex_down
          (snd (fetchTokenTradeData dex_down (snd (fetchTokenSecurity dex_down fresh))))) = no_dex_data \<and>
   fst (getProcessedTokenData dex_down fresh) =
     Inr \<lparr> security = sample_security,
           tradeData = sample_trade,
           holderDistributionTrend = ''increasing'',
           highValueHolders =
             [\<lparr> holderAddress = ''addr1'', balanceUsd = ''11.00'' \<rparr>,
              \<lparr> holderAddress = ''addr4'', balanceUsd = ''5.02'' \<rparr>],
           recentTrades = True,
           highSupplyHoldersCount = 1,
           dexScreenerData = no_dex_data,
           isDexScreenerListed = False,
           isDexScreenerPaid = False \<rparr>"
proof -
  let ?t1 = "snd (fetchTokenSecurity trade_flaky fresh)"
  let ?h1 = "snd (fetchTokenSecurity helius_down fresh)"
  let ?h2 = "snd (fetchTokenTradeData helius_down ?h1)"
  let ?d1 = "snd (fetchTokenSecurity dex_down fresh)"
  let ?d2 = "snd (fetchTokenTradeData dex_down ?d1)"
  have sec: "fst (getProcessedTokenData security_down fresh) = Inl (Error ''Unexpected token <'')"
    using getProcessedTokenData_propagation [where env = security_down and s = fresh
        and e = "Error ''Unexpected token <''"] run_security_down
    by blast
  have trade: "fst (getProcessedTokenData trade_flaky fresh) = Inl (Error ''No token trade data available'')"
    using getProcessedTokenData_propagation [where env = trade_flaky and s = fresh
        and e = "Error ''No token trade data available''" and sec = sample_security and ?s1.0 = ?t1]
      pair_with_snd [OF run_trade_flaky_security] run_trade_flaky_trade
    by blast
  have holders: "fst (getProcessedTokenData helius_down fresh) =
       Inl (Error ''Failed to fetch holder list from Helius.'')"
    using getProcessedTokenData_propagation [where env = helius_down and s = fresh
        and e = "Error ''Failed to fetch holder list from Helius.''" and sec = sample_security
        and ?s1.0 = ?h1 and td = sample_trade and ?s2.0 = ?h2]
      pair_with_snd [OF run_helius_down_security] pair_with_snd [OF run_helius_down_trade]
      run_helius_down_after_dex
    by blast
  have bad: "dex_unusable (Rejected ''ECONNRESET'')"
    by (simp add: dex_unusable_def)
  note dex_inst = getProcessedTokenData_propagation [where env = dex_down and s = fresh
        and sec = sample_security and ?s1.0 = ?d1 and td = sample_trade and ?s2.0 = ?d2
        and hs = sample_holders]
  have dex: "fst (fetchDexScreenerData dex_down ?d2) = no_dex_data"
    using dex_inst run_dex_down_miss bad run_dex_down_answer [of "sent DexScreener ?d2"]
    by simp
  have composite: "fst (getProcessedTokenData dex_down fresh) =
     Inr \<lparr> security = sample_security,
           tradeData = sample_trade,
           holderDistributionTrend = ''increasing'',
           highValueHolders =
             [\<lparr> holderAddress = ''addr1'', balanceUsd = ''11.00'' \<rparr>,
              \<lparr> holderAddress = ''addr4'', balanceUsd = ''5.02'' \<rparr>],
           recentTrades = True,
           highSupplyHoldersCount = 1,
           dexScreenerData = no_dex_data,
           isDexScreenerListed = False,
           isDexScreenerPaid = False \<rparr>"
    using dex_inst pair_with_snd [OF run_dex_down_security] pair_with_snd [OF run_dex_down_trade]
      run_dex_down_after_dex dex run_dex_down
    by (simp add: dex_down_report_def no_dex_data_def)
  show ?thesis
    by (intro conjI run_security_down sec run_trade_flaky_security run_trade_flaky_trade trade
        run_helius_down_security run_helius_down_trade run_helius_down_after_dex holders
        run_dex_down_miss bad dex composite)
qed

text \<open>
  The claim as stated fails for the DexScreener fetch: with an empty cache and a
  DexScreener service that rejects every request, the request is sent, and
  \<open>getProcessedTokenData\<close> still produces the composite, with the fixed data without
  pairs in it.
\<close>

theorem getProcessedTokenData_survives_dex_failure:
  "(\<forall>n. snd (dexscreener dex_down n) = Rejected ''ECONNRESET'') \<and>
   dex_cache_miss dex_down (snd (fetchTokenTradeData dex_down (snd (fetchTokenSecurity dex_down fresh)))) \<and>
   trace (snd (getProcessedTokenData dex_down fresh)) =
     [Request Security, Request Trade, Request DexScreener, Request Helius, Request Helius] \<and>
   fst (getProcessedTokenData dex_down fresh) = Inr dex_down_report \<and>
   dexScreenerData dex_down_report = \<lparr> schemaVersion = ''1.0.0'', pairs = [] \<rparr>"
  using run_dex_down_answer run_dex_down_miss run_dex_down_trace run_dex_down
  by (simp add: dex_down_report_def)

text \<open>
  C2. \<open>getFormattedTokenReport\<close> returns a string for every environment and state,
  whatever is raised inside it: the fixed sentence when \<open>getProcessedTokenData\<close> fails
  or \<open>formatTokenData\<close> throws, and the text \<open>formatTokenData\<close> makes of the
  processed data when both succeed.
\<close>

theorem getFormattedTokenReport_never_raises:
  "(fst (getProcessedTokenData env s) = Inl e \<longrightarrow>
      fst (getFormattedTokenReport env s) =
        ''Unable to fetch token information. Please try again later.'') \<and>
   (fst (getProcessedTokenData env s) = Inr d \<and> formatTokenData env d = Inl e \<longrightarrow>
      fst (getFormattedTokenReport env s) =
        ''Unable to fetch token information. Please try again later.'') \<and>
   (fst (getProcessedTokenData env s) = Inr d \<and> formatTokenData env d = Inr report \<longrightarrow>
      fst (getFormattedTokenReport env s) = report)"
  by (cases "getProcessedTokenData env s")
     (auto simp: getFormattedTokenReport_def apology_def split: sum.splits)

text \<open>
  The three cases: the security fetch fails; a pair without its liquidity object makes
  \<open>formatTokenData\<close> throw; every service answers and the report is the text of the
  sample data.
\<close>

theorem getFormattedTokenReport_never_raises_witness:
  "fst (getProcessedTokenData security_down fresh) = Inl (Error ''Unexpected token <'') \<and>
   fst (getFormattedTokenReport security_down fresh) =
     ''Unable to fetch token information. Please try again later.'' \<and>
   fst (getProcessedTokenData dex_no_liquidity fresh) = Inr no_liquidity_report \<and>
   formatTokenData dex_no_liquidity no_liquidity_report = Inl (TypeError ''usd'') \<and>
   fst (getFormattedTokenReport dex_no_liquidity fresh) =
     ''Unable to fetch token information. Please try again later.'' \<and>
   fst (getProcessedTokenData healthy fresh) = Inr healthy_report \<and>
   formatTokenData healthy healthy_report = Inr healthy_text \<and>
   fst (getFormattedTokenReport healthy fresh) = healthy_text"
proof -
  have failed: "fst (getFormattedTokenReport security_down fresh) =
     ''Unable to fetch token information. Please try again later.''"
    using getFormattedTokenReport_never_raises [where env = security_down and s = fresh
        and e = "Error ''Unexpected token <''"] run_security_down_report
    by blast
  have thrown: "fst (getFormattedTokenReport dex_no_liquidity fresh) =
     ''Unable to fetch token information. Please try again later.''"
    using getFormattedTokenReport_never_raises [where env = dex_no_liquidity and s = fresh
        and d = no_liquidity_report and e = "TypeError ''usd''"] run_no_liquidity run_no_liquidity_text
    by blast
  have formatted: "fst (getFormattedTokenReport healthy fresh) = healthy_text"
    using getFormattedTokenReport_never_raises [where env = healthy and s = fresh and d = healthy_report
        and report = healthy_text] run_healthy run_healthy_text
    by blast
  show ?thesis
    by (intro conjI run_security_down_report failed run_no_liquidity run_no_liquidity_text thrown
        run_healthy run_healthy_text formatted)
qed

end
